theory Spec2Isabelle
  imports Complex_Main "HOL-Library.Word"
begin

section \<open>Machine integers, assertions and outcomes\<close>

text \<open>
  The C++ types \<open>int\<close> and \<open>int64\<close> of \<open>metrics_log.cc\<close> are 32-bit and 64-bit
  two's complement words: \<open>+\<close> wraps, \<open><s\<close> is the signed comparison.
\<close>

type_synonym int32 = "32 word"
type_synonym int64 = "64 word"

text \<open>
  An operation of \<open>MetricsLog\<close> either runs to its end (\<open>Done\<close>, with the state it
  leaves) or stops at a failed assertion (\<open>ProgrammingFault\<close>, with the state at the
  assertion).
\<close>

datatype 's result = Done 's | ProgrammingFault 's

fun is_fault :: "'s result \<Rightarrow> bool" where
  "is_fault (Done s) = False"
| "is_fault (ProgrammingFault s) = True"

fun state_of :: "'s result \<Rightarrow> 's" where
  "state_of (Done s) = s"
| "state_of (ProgrammingFault s) = s"

text \<open>A C++ statement sequence: the statements run in order, a failed assertion stops it.\<close>

fun block :: "('s \<Rightarrow> 's result) list \<Rightarrow> 's \<Rightarrow> 's result" where
  "block [] s = Done s"
| "block (f # fs) s =
     (case f s of Done s' \<Rightarrow> block fs s' | ProgrammingFault s' \<Rightarrow> ProgrammingFault s')"

text \<open>A statement that cannot fail.\<close>

definition ok :: "('s \<Rightarrow> 's) \<Rightarrow> 's \<Rightarrow> 's result" where
  "ok f s = Done (f s)"

section \<open>Values and preferences\<close>

text \<open>\<open>base::Value\<close> with its type tags; a dictionary is kept in key order.\<close>

datatype Value =
    NullValue
  | BooleanValue bool
  | IntegerValue int32
  | DoubleValue real
  | StringValue string
  | BinaryValue string
  | DictionaryValue "(string \<times> Value) list"
  | ListValue "Value list"

text \<open>
  \<open>DictionaryValue::GetString(key, &out)\<close> and \<open>GetInteger(key, &out)\<close>: \<open>out\<close> keeps
  the value it had when the key is missing or holds another type.
\<close>

definition Dict_GetString :: "(string \<times> Value) list \<Rightarrow> string \<Rightarrow> string \<Rightarrow> string" where
  "Dict_GetString dict key out =
     (case map_of dict key of Some (StringValue s) \<Rightarrow> s | _ \<Rightarrow> out)"

definition Dict_GetInteger :: "(string \<times> Value) list \<Rightarrow> string \<Rightarrow> int32 \<Rightarrow> int32" where
  "Dict_GetInteger dict key out =
     (case map_of dict key of Some (IntegerValue i) \<Rightarrow> i | _ \<Rightarrow> out)"

text \<open>The names of \<open>pref_names.h\<close> that \<open>metrics_log.cc\<close> uses.\<close>

datatype pref_name =
    kMetricsClientIDTimestamp
  | kStabilityPluginStats
  | kUninstallMetricsUptimeSec
  | kStabilityIncompleteSessionEndCount
  | kStabilityBreakpadRegistrationSuccess
  | kStabilityBreakpadRegistrationFail
  | kStabilityDebuggerPresent
  | kStabilityDebuggerNotPresent
  | kStabilityLaunchCount
  | kStabilityCrashCount
  | kStabilityPageLoadCount
  | kStabilityRendererCrashCount
  | kStabilityExtensionRendererCrashCount
  | kStabilityRendererHangCount
  | kStabilityChildProcessCrashCount
  | kStabilityOtherUserCrashCount
  | kStabilityKernelCrashCount
  | kStabilitySystemUncleanShutdownCount
  | kNumBookmarksOnBookmarkBar
  | kNumFoldersOnBookmarkBar
  | kNumBookmarksInOtherBookmarkFolder
  | kNumFoldersInOtherBookmarkFolder
  | kNumKeywords

text \<open>
  Modelled from the spec: \<open>PrefService\<close> (\<open>chrome/browser/prefs/pref_service.h\<close> is not
  under src/), the persistent store of named integer, string and list values of sections
  4.1 and 6. A value never set reads as zero or empty; a list preference that is not
  available reads as NULL (\<open>None\<close>); \<open>ClearPref\<close> is the clear-list operation and
  leaves the registered default, the empty list.
\<close>

record PrefService =
  GetInteger :: "pref_name \<Rightarrow> int32"
  GetInt64 :: "pref_name \<Rightarrow> int64"
  GetString :: "pref_name \<Rightarrow> string"
  GetList :: "pref_name \<Rightarrow> Value list option"

definition SetInteger :: "pref_name \<Rightarrow> int32 \<Rightarrow> PrefService \<Rightarrow> PrefService" where
  "SetInteger path v pref = pref\<lparr>GetInteger := (GetInteger pref)(path := v)\<rparr>"

definition SetInt64 :: "pref_name \<Rightarrow> int64 \<Rightarrow> PrefService \<Rightarrow> PrefService" where
  "SetInt64 path v pref = pref\<lparr>GetInt64 := (GetInt64 pref)(path := v)\<rparr>"

definition ClearPref :: "pref_name \<Rightarrow> PrefService \<Rightarrow> PrefService" where
  "ClearPref path pref = pref\<lparr>GetList := (GetList pref)(path := Some [])\<rparr>"

text \<open>
  Modelled from the spec: \<open>CounterStore.increment\<close> of section 4.1, the operation by
  which collaborators outside \<open>metrics_log.cc\<close> accumulate a counter.
\<close>

definition increment :: "pref_name \<Rightarrow> PrefService \<Rightarrow> PrefService" where
  "increment path pref = SetInteger path (GetInteger pref path + 1) pref"

section \<open>The two encodings of a report\<close>

text \<open>
  Modelled from the spec: the legacy attribute-tree encoding that \<open>MetricsLogBase\<close>
  writes (\<open>chrome/common/metrics/metrics_log_base.h\<close> is not under src/). It is the
  stream of the XML writer: opened elements, the scalar attributes written under the
  open element, and closings in LIFO order.
\<close>

datatype attr_value = StringAttr string | IntAttr int32 | Int64Attr int64

datatype xml_event = StartElement string | Attribute string attr_value | EndElement

text \<open>
  The structured record: the messages of \<open>system_profile.proto\<close> and
  \<open>omnibox_event.proto\<close>. An optional field that was never set is \<open>None\<close>.
\<close>

record Plugin =
  pl_name :: "string option"
  pl_filename :: "string option"
  pl_version :: "string option"
  pl_is_disabled :: "bool option"

definition new_Plugin :: Plugin where
  "new_Plugin = \<lparr>pl_name = None, pl_filename = None, pl_version = None, pl_is_disabled = None\<rparr>"

record PluginStability =
  ps_plugin :: Plugin
  ps_launch_count :: "int32 option"
  ps_instance_count :: "int32 option"
  ps_crash_count :: "int32 option"

definition new_PluginStability :: PluginStability where
  "new_PluginStability =
     \<lparr>ps_plugin = new_Plugin, ps_launch_count = None, ps_instance_count = None,
      ps_crash_count = None\<rparr>"

record Stability =
  st_launch_count :: "int32 option"
  st_crash_count :: "int32 option"
  st_incomplete_shutdown_count :: "int32 option"
  st_breakpad_registration_success_count :: "int32 option"
  st_breakpad_registration_failure_count :: "int32 option"
  st_debugger_present_count :: "int32 option"
  st_debugger_not_present_count :: "int32 option"
  st_page_load_count :: "int32 option"
  st_renderer_crash_count :: "int32 option"
  st_extension_renderer_crash_count :: "int32 option"
  st_renderer_hang_count :: "int32 option"
  st_child_process_crash_count :: "int32 option"
  st_other_user_crash_count :: "int32 option"
  st_kernel_crash_count :: "int32 option"
  st_unclean_system_shutdown_count :: "int32 option"
  st_uptime_sec :: "int64 option"
  st_plugin_stability :: "PluginStability list"

definition new_Stability :: Stability where
  "new_Stability =
     \<lparr>st_launch_count = None, st_crash_count = None, st_incomplete_shutdown_count = None,
      st_breakpad_registration_success_count = None,
      st_breakpad_registration_failure_count = None,
      st_debugger_present_count = None, st_debugger_not_present_count = None,
      st_page_load_count = None, st_renderer_crash_count = None,
      st_extension_renderer_crash_count = None, st_renderer_hang_count = None,
      st_child_process_crash_count = None, st_other_user_crash_count = None,
      st_kernel_crash_count = None, st_unclean_system_shutdown_count = None,
      st_uptime_sec = None, st_plugin_stability = []\<rparr>"

record PerformanceStatistics =
  perf_graphics_score :: "real option"
  perf_gaming_score :: "real option"
  perf_overall_score :: "real option"

record Graphics =
  gpu_vendor_id :: "int32 option"
  gpu_device_id :: "int32 option"
  gpu_driver_version :: "string option"
  gpu_driver_date :: "string option"
  gpu_performance_statistics :: PerformanceStatistics

record Hardware =
  hw_cpu_architecture :: "string option"
  hw_system_ram_mb :: "int32 option"
  hw_dll_base :: "int64 option"
  hw_primary_screen_width :: "int32 option"
  hw_primary_screen_height :: "int32 option"
  hw_screen_count :: "int32 option"
  hw_gpu :: Graphics

record OS =
  os_name :: "string option"
  os_version :: "string option"

record FieldTrial =
  ft_name_id :: "int32 option"
  ft_group_id :: "int32 option"

record SystemProfileProto =
  sp_install_date :: "int32 option"
  sp_application_locale :: "string option"
  sp_hardware :: Hardware
  sp_os :: OS
  sp_plugin :: "Plugin list"
  sp_stability :: Stability
  sp_field_trial :: "FieldTrial list"

definition new_SystemProfileProto :: SystemProfileProto where
  "new_SystemProfileProto =
     \<lparr>sp_install_date = None, sp_application_locale = None,
      sp_hardware =
        \<lparr>hw_cpu_architecture = None, hw_system_ram_mb = None, hw_dll_base = None,
         hw_primary_screen_width = None, hw_primary_screen_height = None,
         hw_screen_count = None,
         hw_gpu =
           \<lparr>gpu_vendor_id = None, gpu_device_id = None, gpu_driver_version = None,
            gpu_driver_date = None,
            gpu_performance_statistics =
              \<lparr>perf_graphics_score = None, perf_gaming_score = None,
               perf_overall_score = None\<rparr>\<rparr>\<rparr>,
      sp_os = \<lparr>os_name = None, os_version = None\<rparr>,
      sp_plugin = [], sp_stability = new_Stability, sp_field_trial = []\<rparr>"

datatype OmniboxEvent_InputType =
  INVALID | UNKNOWN | REQUESTED_URL | URL | QUERY | FORCED_QUERY

datatype Suggestion_ProviderType =
    UNKNOWN_PROVIDER
  | PROVIDER_URL
  | HISTORY_CONTENTS
  | HISTORY_QUICK
  | SEARCH
  | KEYWORD
  | BUILTIN
  | SHORTCUTS
  | EXTENSION_APPS

datatype Suggestion_ResultType =
    UNKNOWN_RESULT_TYPE
  | URL_WHAT_YOU_TYPED
  | HISTORY_URL
  | HISTORY_TITLE
  | HISTORY_BODY
  | HISTORY_KEYWORD
  | NAVSUGGEST
  | SEARCH_WHAT_YOU_TYPED
  | SEARCH_HISTORY
  | SEARCH_SUGGEST
  | SEARCH_OTHER_ENGINE
  | EXTENSION_APP

record Suggestion =
  sg_provider :: "Suggestion_ProviderType option"
  sg_result_type :: "Suggestion_ResultType option"
  sg_relevance :: "int32 option"
  sg_is_starred :: "bool option"

record OmniboxEventProto =
  oe_time :: "int64 option"
  oe_tab_id :: "int32 option"
  oe_typed_length :: "int32 option"
  oe_num_typed_terms :: "int32 option"
  oe_selected_index :: "int32 option"
  oe_completed_length :: "int32 option"
  oe_typing_duration_ms :: "int64 option"
  oe_input_type :: "OmniboxEvent_InputType option"
  oe_suggestion :: "Suggestion list"

definition new_OmniboxEventProto :: OmniboxEventProto where
  "new_OmniboxEventProto =
     \<lparr>oe_time = None, oe_tab_id = None, oe_typed_length = None, oe_num_typed_terms = None,
      oe_selected_index = None, oe_completed_length = None, oe_typing_duration_ms = None,
      oe_input_type = None, oe_suggestion = []\<rparr>"

record ChromeUserMetricsExtension =
  system_profile :: SystemProfileProto
  omnibox_event :: "OmniboxEventProto list"

section \<open>The report, the collaborators and the state\<close>

text \<open>
  \<open>MetricsLog\<close> with the members of \<open>MetricsLogBase\<close> that \<open>metrics_log.cc\<close> reads
  and writes: the legacy stream, the structured record \<open>uma_proto()\<close>, \<open>locked()\<close>
  and \<open>num_events_\<close>.
\<close>

record MetricsLog =
  xml :: "xml_event list"
  uma_proto :: ChromeUserMetricsExtension
  locked :: bool
  num_events :: int32

definition new_MetricsLog :: MetricsLog where
  "new_MetricsLog =
     \<lparr>xml = [],
      uma_proto = \<lparr>system_profile = new_SystemProfileProto, omnibox_event = []\<rparr>,
      locked = False, num_events = 0\<rparr>"

text \<open>
  The state an operation runs in: the report \<open>this\<close>, the local-state preferences of
  \<open>GetPrefService()\<close>, and the function-static \<open>last_updated_time\<close> of
  \<open>GetIncrementalUptime\<close> (\<open>None\<close> until its first call initialises it).
\<close>

record world =
  mlog :: MetricsLog
  local_state :: PrefService
  last_updated_time :: "int64 option"

text \<open>\<open>webkit::WebPluginInfo\<close>, \<open>content::GPUInfo\<close> and \<open>NameGroupId\<close> as far as they are read.\<close>

record WebPluginInfo =
  wpi_name :: string
  wpi_path :: string
  wpi_version :: string

record GPUInfo =
  gi_vendor_id :: int32
  gi_device_id :: int32
  gi_driver_version :: string
  gi_driver_date :: string
  gi_graphics :: real
  gi_gaming :: real
  gi_overall :: real

record NameGroupId =
  ngi_name :: int32
  ngi_group :: int32

datatype AutocompleteInput_Type =
  AI_INVALID | AI_UNKNOWN | AI_REQUESTED_URL | AI_URL | AI_QUERY | AI_FORCED_QUERY | AI_OTHER

datatype AutocompleteMatch_Type =
    AM_URL_WHAT_YOU_TYPED
  | AM_HISTORY_URL
  | AM_HISTORY_TITLE
  | AM_HISTORY_BODY
  | AM_HISTORY_KEYWORD
  | AM_NAVSUGGEST
  | AM_SEARCH_WHAT_YOU_TYPED
  | AM_SEARCH_HISTORY
  | AM_SEARCH_SUGGEST
  | AM_SEARCH_OTHER_ENGINE
  | AM_EXTENSION_APP
  | AM_NUM_TYPES

text \<open>An \<open>AutocompleteMatch\<close>; \<open>am_provider\<close> is the provider's name, \<open>None\<close> for NULL.\<close>

record AutocompleteMatch =
  am_provider :: "string option"
  am_type :: AutocompleteMatch_Type
  am_relevance :: int32
  am_starred :: bool

record AutocompleteLog =
  al_text :: string
  al_input_type :: AutocompleteInput_Type
  al_selected_index :: nat
  al_tab_id :: int32
  al_inline_autocompleted_length :: nat
  al_elapsed_time_since_user_first_modified_omnibox :: int64
  al_result :: "AutocompleteMatch list"

text \<open>
  What \<open>metrics_log.cc\<close> takes from code that is not under src/, as parameters: the
  build configuration (\<open>DCHECK_IS_ON\<close>, \<open>OS_CHROMEOS\<close>, \<open>OS_WIN\<close>), the base class
  \<open>MetricsLogBase\<close> (\<open>CreateHashes\<close>, the attributes of
  \<open>WriteCommonEventAttributes\<close>, \<open>GetCurrentTime\<close>), the clock, the loaded profiles
  (each given by its \<open>PluginPrefs::IsPluginEnabled\<close>), the system, GPU, screen and
  field-trial providers, and library functions of \<open>base\<close> and \<open>autocomplete\<close>.
\<close>

record environment =
  dcheck_is_on :: bool
  os_chromeos :: bool
  os_win :: bool
  CreateHashes :: "string \<Rightarrow> string"
  common_event_attributes :: "(string \<times> attr_value) list"
  GetCurrentTime :: int64
  TimeTicks_Now :: int64
  profile_manager :: "(WebPluginInfo \<Rightarrow> bool) list option"
  BaseName :: "string \<Rightarrow> string"
  StringToInt :: "string \<Rightarrow> bool \<times> int32"
  ApplicationLocale :: string
  CPUArchitecture :: string
  AmountOfPhysicalMemoryMB :: int32
  ImageBase :: int64
  OperatingSystemName :: string
  OperatingSystemVersion :: string
  GetGPUInfo :: GPUInfo
  GetScreenSize :: "int32 \<times> int32"
  GetScreenCount :: int32
  GetFieldTrialIds :: "NameGroupId list"
  kProfilePrefix :: string
  Tokenize :: "string \<Rightarrow> string list"
  InputTypeToString :: "AutocompleteInput_Type \<Rightarrow> string"
  MatchTypeToString :: "AutocompleteMatch_Type \<Rightarrow> string"

text \<open>
  The assertion macros \<open>DCHECK\<close> and \<open>NOTREACHED\<close> (\<open>base/logging.h\<close> is not under
  src/), with the build parameter \<open>dcheck_is_on\<close>. Where assertions are compiled in, a
  failed one is the assertion-style failure of section 7 of the specification: it stops
  the operation with a \<open>ProgrammingFault\<close>. Where they are compiled out, the statement
  that the source places after the macro runs (\<open>continue\<close>, \<open>break\<close>,
  \<open>return "0"\<close>).
\<close>

definition DCHECK :: "environment \<Rightarrow> (world \<Rightarrow> bool) \<Rightarrow> world \<Rightarrow> world result" where
  "DCHECK env cond w = (if dcheck_is_on env \<and> \<not> cond w then ProgrammingFault w else Done w)"

definition NOTREACHED :: "environment \<Rightarrow> world \<Rightarrow> world result" where
  "NOTREACHED env w = (if dcheck_is_on env then ProgrammingFault w else Done w)"

text \<open>
  Modelled from the spec: the writes of \<open>MetricsLogBase\<close> (sections 4.3 and 4.4).
  \<open>OpenElement\<close> and \<open>CloseElement\<close> open and close a section; the three
  \<open>Write...Attribute\<close> record a scalar under the open section.
  \<open>OPEN_ELEMENT_FOR_SCOPE\<close> is the scoped guard: the element is closed when the scope
  is left.
\<close>

definition emit :: "xml_event \<Rightarrow> world \<Rightarrow> world" where
  "emit e = mlog_update (xml_update (\<lambda>es. es @ [e]))"

definition OpenElement :: "string \<Rightarrow> world \<Rightarrow> world" where
  "OpenElement name = emit (StartElement name)"

definition CloseElement :: "world \<Rightarrow> world" where
  "CloseElement = emit EndElement"

definition WriteAttribute :: "string \<Rightarrow> string \<Rightarrow> world \<Rightarrow> world" where
  "WriteAttribute name v = emit (Attribute name (StringAttr v))"

definition WriteIntAttribute :: "string \<Rightarrow> int32 \<Rightarrow> world \<Rightarrow> world" where
  "WriteIntAttribute name v = emit (Attribute name (IntAttr v))"

definition WriteInt64Attribute :: "string \<Rightarrow> int64 \<Rightarrow> world \<Rightarrow> world" where
  "WriteInt64Attribute name v = emit (Attribute name (Int64Attr v))"

definition WriteCommonEventAttributes :: "environment \<Rightarrow> world \<Rightarrow> world" where
  "WriteCommonEventAttributes env =
     mlog_update (xml_update (\<lambda>es. es @ map (\<lambda>(n, v). Attribute n v) (common_event_attributes env)))"

definition OPEN_ELEMENT_FOR_SCOPE ::
  "string \<Rightarrow> (world \<Rightarrow> world result) list \<Rightarrow> world \<Rightarrow> world result" where
  "OPEN_ELEMENT_FOR_SCOPE name body = block [ok (OpenElement name), block body, ok CloseElement]"

text \<open>\<open>uma_proto()->mutable_system_profile()\<close> and \<open>->mutable_stability()\<close>.\<close>

definition mutable_system_profile ::
  "(SystemProfileProto \<Rightarrow> SystemProfileProto) \<Rightarrow> world \<Rightarrow> world" where
  "mutable_system_profile f = mlog_update (uma_proto_update (system_profile_update f))"

definition mutable_stability :: "(Stability \<Rightarrow> Stability) \<Rightarrow> world \<Rightarrow> world" where
  "mutable_stability f = mutable_system_profile (sp_stability_update f)"

definition stability :: "world \<Rightarrow> Stability" where
  "stability w = sp_stability (system_profile (uma_proto (mlog w)))"

definition pref_update :: "(PrefService \<Rightarrow> PrefService) \<Rightarrow> world \<Rightarrow> world" where
  "pref_update f = local_state_update f"

text \<open>
  Modelled from the spec: \<open>base::TimeTicks\<close> and \<open>base::TimeDelta\<close> (\<open>base/time.h\<close>
  is not under src/), the monotonic clock of section 4.5a, counted in microseconds.
  \<open>InSeconds\<close> and \<open>InMilliseconds\<close> are C++ \<open>int64\<close> divisions, which truncate
  toward zero.
\<close>

definition trunc_div64 :: "int64 \<Rightarrow> int \<Rightarrow> int64" where
  "trunc_div64 a b = word_of_int (sgn (sint a) * (\<bar>sint a\<bar> div b))"

definition InSeconds :: "int64 \<Rightarrow> int64" where
  "InSeconds delta = trunc_div64 delta 1000000"

definition InMilliseconds :: "int64 \<Rightarrow> int64" where
  "InMilliseconds delta = trunc_div64 delta 1000"

section \<open>The functions of \<open>metrics_log.cc\<close>\<close>

text \<open>
  \<open>GetPrefService()\<close> is \<open>g_browser_process->local_state()\<close>, a pointer; the state
  always holds the local-state store, so the pointer is never NULL here.
\<close>

definition GetPrefService :: "world \<Rightarrow> PrefService option" where
  "GetPrefService w = Some (local_state w)"

text \<open>
  \<open>GetInstallDate\<close>: \<open>None\<close> is the failed \<open>NOTREACHED\<close> on a NULL \<open>pref\<close>; with
  assertions compiled out the function returns \<open>"0"\<close> there.
\<close>

definition GetInstallDate :: "environment \<Rightarrow> PrefService option \<Rightarrow> string option" where
  "GetInstallDate env pref =
     (case pref of
        None \<Rightarrow> if dcheck_is_on env then None else Some ''0''
      | Some p \<Rightarrow> Some (GetString p kMetricsClientIDTimestamp))"

definition GetPluginPrefs :: "environment \<Rightarrow> (WebPluginInfo \<Rightarrow> bool) option" where
  "GetPluginPrefs env =
     (case profile_manager env of
        None \<Rightarrow> None
      | Some profiles \<Rightarrow> (case profiles of [] \<Rightarrow> None | front # _ \<Rightarrow> Some front))"

text \<open>
  \<open>SetPluginInfo\<close>; \<open>UTF16ToUTF8\<close> and \<open>UTF8ToUTF16\<close> convert between two encodings
  of the same text and are the identity on \<open>string\<close>.
\<close>

definition SetPluginInfo ::
  "environment \<Rightarrow> WebPluginInfo \<Rightarrow> (WebPluginInfo \<Rightarrow> bool) option \<Rightarrow> Plugin \<Rightarrow> Plugin" where
  "SetPluginInfo env plugin_info plugin_prefs plugin =
     (let p = plugin\<lparr>pl_name := Some (wpi_name plugin_info),
                     pl_filename := Some (BaseName env (wpi_path plugin_info)),
                     pl_version := Some (wpi_version plugin_info)\<rparr>
      in case plugin_prefs of
           None \<Rightarrow> p
         | Some IsPluginEnabled \<Rightarrow> p\<lparr>pl_is_disabled := Some (\<not> IsPluginEnabled plugin_info)\<rparr>)"

definition WriteFieldTrials :: "NameGroupId list \<Rightarrow> SystemProfileProto \<Rightarrow> SystemProfileProto" where
  "WriteFieldTrials field_trial_ids profile =
     profile\<lparr>sp_field_trial := sp_field_trial profile @
        map (\<lambda>it. \<lparr>ft_name_id = Some (ngi_name it), ft_group_id = Some (ngi_group it)\<rparr>)
          field_trial_ids\<rparr>"

text \<open>
  \<open>GetIncrementalUptime\<close>, with the clock reading \<open>now\<close> as an argument. The static
  \<open>last_updated_time\<close> is initialised to \<open>now\<close> by the first call.
\<close>

definition GetIncrementalUptime :: "int64 \<Rightarrow> world \<Rightarrow> int64 \<times> world" where
  "GetIncrementalUptime now w =
     (let last = (case last_updated_time w of None \<Rightarrow> now | Some t \<Rightarrow> t);
          incremental_time = InSeconds (now - last);
          w1 = w\<lparr>last_updated_time := Some now\<rparr>
      in if 0 <s incremental_time
         then (incremental_time,
               pref_update (\<lambda>pref. SetInt64 kUninstallMetricsUptimeSec
                 (GetInt64 pref kUninstallMetricsUptimeSec + incremental_time) pref) w1)
         else (incremental_time, w1))"

definition WriteRequiredStabilityAttributes :: "world \<Rightarrow> world" where
  "WriteRequiredStabilityAttributes w0 =
     (let launch_count = GetInteger (local_state w0) kStabilityLaunchCount;
          w1 = pref_update (SetInteger kStabilityLaunchCount 0) w0;
          crash_count = GetInteger (local_state w1) kStabilityCrashCount;
          w2 = pref_update (SetInteger kStabilityCrashCount 0) w1;
          w3 = WriteIntAttribute ''launchcount'' launch_count w2;
          w4 = WriteIntAttribute ''crashcount'' crash_count w3;
          w5 = mutable_stability (st_launch_count_update (\<lambda>_. Some launch_count)) w4
      in mutable_stability (st_crash_count_update (\<lambda>_. Some crash_count)) w5)"

text \<open>
  The statement pattern of \<open>WriteRealtimeStabilityAttributes\<close>,
  \<^verbatim>\<open>count = pref->GetInteger(path); if (count) { <writes>; pref->SetInteger(path, 0); }\<close>,
  with the writes of the block as \<open>writes\<close>.
\<close>

definition realtime_count :: "pref_name \<Rightarrow> (int32 \<Rightarrow> world \<Rightarrow> world) \<Rightarrow> world \<Rightarrow> world" where
  "realtime_count path writes w =
     (let count = GetInteger (local_state w) path
      in if count \<noteq> 0 then pref_update (SetInteger path 0) (writes count w) else w)"

text \<open>A block between \<^verbatim>\<open>#if defined(...)\<close> and \<^verbatim>\<open>#endif\<close>.\<close>

definition ifdef :: "bool \<Rightarrow> (world \<Rightarrow> world) \<Rightarrow> world \<Rightarrow> world" where
  "ifdef defined body w = (if defined then body w else w)"

definition WriteRealtimeStabilityAttributes :: "environment \<Rightarrow> world \<Rightarrow> world" where
  "WriteRealtimeStabilityAttributes env w0 =
     (let w1 = realtime_count kStabilityPageLoadCount (\<lambda>count w.
            mutable_stability (st_page_load_count_update (\<lambda>_. Some count))
              (WriteIntAttribute ''pageloadcount'' count w)) w0;
          w2 = realtime_count kStabilityRendererCrashCount (\<lambda>count w.
            mutable_stability (st_renderer_crash_count_update (\<lambda>_. Some count))
              (WriteIntAttribute ''renderercrashcount'' count w)) w1;
          w3 = realtime_count kStabilityExtensionRendererCrashCount (\<lambda>count w.
            mutable_stability (st_extension_renderer_crash_count_update (\<lambda>_. Some count))
              (WriteIntAttribute ''extensionrenderercrashcount'' count w)) w2;
          w4 = realtime_count kStabilityRendererHangCount (\<lambda>count w.
            mutable_stability (st_renderer_hang_count_update (\<lambda>_. Some count))
              (WriteIntAttribute ''rendererhangcount'' count w)) w3;
          w5 = realtime_count kStabilityChildProcessCrashCount (\<lambda>count w.
            mutable_stability (st_child_process_crash_count_update (\<lambda>_. Some count))
              (WriteIntAttribute ''childprocesscrashcount'' count w)) w4;
          w8 = ifdef (os_chromeos env) (\<lambda>w5.
            let w6 = realtime_count kStabilityOtherUserCrashCount (\<lambda>count.
                       mutable_stability (st_other_user_crash_count_update (\<lambda>_. Some count))) w5;
                w7 = realtime_count kStabilityKernelCrashCount (\<lambda>count.
                       mutable_stability (st_kernel_crash_count_update (\<lambda>_. Some count))) w6
            in realtime_count kStabilitySystemUncleanShutdownCount (\<lambda>count.
                 mutable_stability
                   (st_unclean_system_shutdown_count_update (\<lambda>_. Some count))) w7) w5;
          (recent_duration, w9) = GetIncrementalUptime (TimeTicks_Now env) w8
      in if recent_duration \<noteq> 0
         then mutable_stability (st_uptime_sec_update (\<lambda>_. Some recent_duration))
                (WriteInt64Attribute ''uptimesec'' recent_duration w9)
         else w9)"

text \<open>
  Modelled from the spec: the keys of a persisted PluginUsageRecord (the constants
  \<open>kStabilityPluginName\<close> and so on of \<open>pref_names.cc\<close>, not under src/): the plugin
  name and its launches, instances and crashes.
\<close>

definition kStabilityPluginName :: string where
  "kStabilityPluginName = ''name''"

definition kStabilityPluginLaunches :: string where
  "kStabilityPluginLaunches = ''launches''"

definition kStabilityPluginInstances :: string where
  "kStabilityPluginInstances = ''instances''"

definition kStabilityPluginCrashes :: string where
  "kStabilityPluginCrashes = ''crashes''"

definition PluginUsageRecord :: "string \<Rightarrow> int32 \<Rightarrow> int32 \<Rightarrow> int32 \<Rightarrow> Value" where
  "PluginUsageRecord plugin_name launches instances crashes =
     DictionaryValue
       [(kStabilityPluginName, StringValue plugin_name),
        (kStabilityPluginLaunches, IntegerValue launches),
        (kStabilityPluginInstances, IntegerValue instances),
        (kStabilityPluginCrashes, IntegerValue crashes)]"

text \<open>The inner loop of \<open>WritePluginStabilityElements\<close>: the first item of that name.\<close>

fun find_plugin_info :: "WebPluginInfo list \<Rightarrow> string \<Rightarrow> WebPluginInfo option" where
  "find_plugin_info [] plugin_name = None"
| "find_plugin_info (info # rest) plugin_name =
     (if wpi_name info = plugin_name then Some info else find_plugin_info rest plugin_name)"

text \<open>
  One iteration of the outer loop, for the list entry \<open>v\<close>. A \<open>continue\<close> inside the
  scope of \<open>pluginstability\<close> leaves the scope, which closes the element.
\<close>

definition plugin_stats_iteration ::
  "environment \<Rightarrow> WebPluginInfo list \<Rightarrow> Value \<Rightarrow> world \<Rightarrow> world result" where
  "plugin_stats_iteration env plugin_list v =
     (case v of
        DictionaryValue plugin_dict \<Rightarrow>
          (let plugin_name = Dict_GetString plugin_dict kStabilityPluginName [];
               base64_name_hash = CreateHashes env plugin_name;
               launches = Dict_GetInteger plugin_dict kStabilityPluginLaunches 0;
               instances = Dict_GetInteger plugin_dict kStabilityPluginInstances 0;
               crashes = Dict_GetInteger plugin_dict kStabilityPluginCrashes 0
           in OPEN_ELEMENT_FOR_SCOPE ''pluginstability''
                [ok (WriteAttribute ''filename'' base64_name_hash),
                 ok (WriteIntAttribute ''launchcount'' launches),
                 ok (WriteIntAttribute ''instancecount'' instances),
                 ok (WriteIntAttribute ''crashcount'' crashes),
                 (case find_plugin_info plugin_list plugin_name of
                    None \<Rightarrow> NOTREACHED env
                  | Some plugin_info \<Rightarrow>
                      ok (mutable_stability (\<lambda>stability.
                        stability\<lparr>st_plugin_stability := st_plugin_stability stability @
                          [\<lparr>ps_plugin =
                              SetPluginInfo env plugin_info (GetPluginPrefs env) new_Plugin,
                            ps_launch_count = Some launches,
                            ps_instance_count = Some instances,
                            ps_crash_count = Some crashes\<rparr>]\<rparr>)))])
      | _ \<Rightarrow> NOTREACHED env)"

definition WritePluginStabilityElements ::
  "environment \<Rightarrow> WebPluginInfo list \<Rightarrow> world \<Rightarrow> world result" where
  "WritePluginStabilityElements env plugin_list w =
     (case GetList (local_state w) kStabilityPluginStats of
        None \<Rightarrow> Done w
      | Some plugin_stats_list \<Rightarrow>
          OPEN_ELEMENT_FOR_SCOPE ''plugins''
            [block (map (plugin_stats_iteration env plugin_list) plugin_stats_list),
             ok (pref_update (ClearPref kStabilityPluginStats))] w)"

text \<open>
  The statements of \<open>WriteStabilityElement\<close> between the realtime attributes and the
  plugin elements: five more counters are read and reset, then written to both encodings,
  zero or not.
\<close>

definition other_stability_counts :: "world \<Rightarrow> world" where
  "other_stability_counts w0 =
     (let incomplete_shutdown_count =
            GetInteger (local_state w0) kStabilityIncompleteSessionEndCount;
          w1 = pref_update (SetInteger kStabilityIncompleteSessionEndCount 0) w0;
          breakpad_registration_success_count =
            GetInteger (local_state w1) kStabilityBreakpadRegistrationSuccess;
          w2 = pref_update (SetInteger kStabilityBreakpadRegistrationSuccess 0) w1;
          breakpad_registration_failure_count =
            GetInteger (local_state w2) kStabilityBreakpadRegistrationFail;
          w3 = pref_update (SetInteger kStabilityBreakpadRegistrationFail 0) w2;
          debugger_present_count = GetInteger (local_state w3) kStabilityDebuggerPresent;
          w4 = pref_update (SetInteger kStabilityDebuggerPresent 0) w3;
          debugger_not_present_count =
            GetInteger (local_state w4) kStabilityDebuggerNotPresent;
          w5 = pref_update (SetInteger kStabilityDebuggerNotPresent 0) w4;
          w6 = WriteIntAttribute ''incompleteshutdowncount'' incomplete_shutdown_count w5;
          w7 = WriteIntAttribute ''breakpadregistrationok''
                 breakpad_registration_success_count w6;
          w8 = WriteIntAttribute ''breakpadregistrationfail''
                 breakpad_registration_failure_count w7;
          w9 = WriteIntAttribute ''debuggerpresent'' debugger_present_count w8;
          w10 = WriteIntAttribute ''debuggernotpresent'' debugger_not_present_count w9
      in mutable_stability (\<lambda>stability. stability
           \<lparr>st_incomplete_shutdown_count := Some incomplete_shutdown_count,
            st_breakpad_registration_success_count :=
              Some breakpad_registration_success_count,
            st_breakpad_registration_failure_count :=
              Some breakpad_registration_failure_count,
            st_debugger_present_count := Some debugger_present_count,
            st_debugger_not_present_count := Some debugger_not_present_count\<rparr>) w10)"

definition WriteStabilityElement ::
  "environment \<Rightarrow> WebPluginInfo list \<Rightarrow> world \<Rightarrow> world result" where
  "WriteStabilityElement env plugin_list =
     block
       [DCHECK env (\<lambda>w. \<not> locked (mlog w)),
        OPEN_ELEMENT_FOR_SCOPE ''stability''
          [ok WriteRequiredStabilityAttributes,
           ok (WriteRealtimeStabilityAttributes env),
           ok other_stability_counts,
           WritePluginStabilityElements env plugin_list]]"

definition WriteInstallElement :: "environment \<Rightarrow> world \<Rightarrow> world result" where
  "WriteInstallElement env =
     OPEN_ELEMENT_FOR_SCOPE ''install''
       [(\<lambda>w. case GetInstallDate env (GetPrefService w) of
               None \<Rightarrow> ProgrammingFault w
             | Some install_date \<Rightarrow> Done (WriteAttribute ''installdate'' install_date w)),
        ok (WriteIntAttribute ''buildid'' 0)]"

definition RecordIncrementalStabilityElements ::
  "environment \<Rightarrow> WebPluginInfo list \<Rightarrow> world \<Rightarrow> world result" where
  "RecordIncrementalStabilityElements env plugin_list =
     block
       [DCHECK env (\<lambda>w. \<not> locked (mlog w)),
        DCHECK env (\<lambda>w. GetPrefService w \<noteq> None),
        OPEN_ELEMENT_FOR_SCOPE ''profile''
          [ok (WriteCommonEventAttributes env),
           WriteInstallElement env,
           OPEN_ELEMENT_FOR_SCOPE ''stability''
             [ok WriteRequiredStabilityAttributes,
              ok (WriteRealtimeStabilityAttributes env),
              WritePluginStabilityElements env plugin_list]]]"

definition WritePluginList ::
  "environment \<Rightarrow> WebPluginInfo list \<Rightarrow> bool \<Rightarrow> world \<Rightarrow> world result" where
  "WritePluginList env plugin_list write_as_xml =
     block
       [DCHECK env (\<lambda>w. \<not> locked (mlog w)),
        OPEN_ELEMENT_FOR_SCOPE ''plugins''
          (map (\<lambda>iter.
             if write_as_xml
             then (let base64_name_hash = CreateHashes env (wpi_name iter);
                       filename_bytes = BaseName env (wpi_path iter);
                       base64_filename_hash = CreateHashes env filename_bytes
                   in OPEN_ELEMENT_FOR_SCOPE ''plugin''
                        [ok (WriteAttribute ''name'' base64_name_hash),
                         ok (WriteAttribute ''filename'' base64_filename_hash),
                         ok (WriteAttribute ''version'' (wpi_version iter)),
                         (case GetPluginPrefs env of
                            None \<Rightarrow> Done
                          | Some IsPluginEnabled \<Rightarrow>
                              ok (WriteIntAttribute ''disabled''
                                    (if \<not> IsPluginEnabled iter then 1 else 0)))])
             else ok (mutable_system_profile (\<lambda>profile.
                    profile\<lparr>sp_plugin := sp_plugin profile @
                      [SetPluginInfo env iter (GetPluginPrefs env) new_Plugin]\<rparr>)))
           plugin_list)]"

definition RecordEnvironmentProto ::
  "environment \<Rightarrow> WebPluginInfo list \<Rightarrow> world \<Rightarrow> world result" where
  "RecordEnvironmentProto env plugin_list =
     block
       [(\<lambda>w. case GetInstallDate env (GetPrefService w) of
               None \<Rightarrow> ProgrammingFault w
             | Some date \<Rightarrow>
                 (let (success, install_date) = StringToInt env date
                  in block
                       [DCHECK env (\<lambda>_. success),
                        ok (mutable_system_profile
                              (sp_install_date_update (\<lambda>_. Some install_date)))] w)),
        ok (mutable_system_profile
              (sp_application_locale_update (\<lambda>_. Some (ApplicationLocale env)))),
        ok (mutable_system_profile (sp_hardware_update (\<lambda>hardware.
              hardware\<lparr>hw_cpu_architecture := Some (CPUArchitecture env),
                        hw_system_ram_mb := Some (AmountOfPhysicalMemoryMB env),
                        hw_dll_base :=
                          (if os_win env then Some (ImageBase env) else hw_dll_base hardware)\<rparr>))),
        ok (mutable_system_profile (sp_os_update (\<lambda>os.
              os\<lparr>os_name := Some (OperatingSystemName env),
                  os_version := Some (OperatingSystemVersion env)\<rparr>))),
        ok (mutable_system_profile (sp_hardware_update (hw_gpu_update (\<lambda>gpu.
              gpu\<lparr>gpu_vendor_id := Some (gi_vendor_id (GetGPUInfo env)),
                   gpu_device_id := Some (gi_device_id (GetGPUInfo env)),
                   gpu_driver_version := Some (gi_driver_version (GetGPUInfo env)),
                   gpu_driver_date := Some (gi_driver_date (GetGPUInfo env)),
                   gpu_performance_statistics :=
                     \<lparr>perf_graphics_score = Some (gi_graphics (GetGPUInfo env)),
                      perf_gaming_score = Some (gi_gaming (GetGPUInfo env)),
                      perf_overall_score = Some (gi_overall (GetGPUInfo env))\<rparr>\<rparr>)))),
        ok (mutable_system_profile (sp_hardware_update (\<lambda>hardware.
              hardware\<lparr>hw_primary_screen_width := Some (fst (GetScreenSize env)),
                        hw_primary_screen_height := Some (snd (GetScreenSize env)),
                        hw_screen_count := Some (GetScreenCount env)\<rparr>))),
        WritePluginList env plugin_list False,
        ok (mutable_system_profile (WriteFieldTrials (GetFieldTrialIds env)))]"

text \<open>
  \<open>WriteProfileMetrics\<close>: the loop over the keys of one profile's dictionary, with
  \<open>profile_metrics_iteration\<close> its body for the key \<open>i\<close> and the value \<open>v\<close>. Every
  key has a value, so \<open>GetWithoutPathExpansion\<close> succeeds, and \<open>GetAsString\<close>,
  \<open>GetAsBoolean\<close> and \<open>GetAsInteger\<close> succeed on a value of their type.
\<close>

definition profile_metrics_iteration ::
  "environment \<Rightarrow> string \<Rightarrow> Value \<Rightarrow> world \<Rightarrow> world result" where
  "profile_metrics_iteration env i v =
     block
       [DCHECK env (\<lambda>_. i \<noteq> ''id''),
        (case v of
           StringValue string_value \<Rightarrow>
             OPEN_ELEMENT_FOR_SCOPE ''profileparam''
               [ok (WriteAttribute ''name'' i), ok (WriteAttribute ''value'' string_value)]
         | BooleanValue bool_value \<Rightarrow>
             OPEN_ELEMENT_FOR_SCOPE ''profileparam''
               [ok (WriteAttribute ''name'' i),
                ok (WriteIntAttribute ''value'' (if bool_value then 1 else 0))]
         | IntegerValue int_value \<Rightarrow>
             OPEN_ELEMENT_FOR_SCOPE ''profileparam''
               [ok (WriteAttribute ''name'' i), ok (WriteIntAttribute ''value'' int_value)]
         | _ \<Rightarrow> NOTREACHED env)]"

definition WriteProfileMetrics ::
  "environment \<Rightarrow> string \<Rightarrow> (string \<times> Value) list \<Rightarrow> world \<Rightarrow> world result" where
  "WriteProfileMetrics env profileidhash profile_metrics =
     OPEN_ELEMENT_FOR_SCOPE ''userprofile''
       (ok (WriteAttribute ''profileidhash'' profileidhash) #
        map (\<lambda>(i, v). profile_metrics_iteration env i v) profile_metrics)"

definition WriteAllProfilesMetrics ::
  "environment \<Rightarrow> (string \<times> Value) list \<Rightarrow> world \<Rightarrow> world result" where
  "WriteAllProfilesMetrics env all_profiles_metrics =
     (let profile_prefix = kProfilePrefix env
      in block
           (map (\<lambda>(key_name, v).
              if take (length profile_prefix) key_name = profile_prefix
              then (case v of
                      DictionaryValue profile \<Rightarrow>
                        WriteProfileMetrics env (drop (length profile_prefix) key_name) profile
                    | _ \<Rightarrow> Done)
              else Done)
            all_profiles_metrics))"

definition RecordEnvironment ::
  "environment \<Rightarrow> WebPluginInfo list \<Rightarrow> (string \<times> Value) list option \<Rightarrow> world \<Rightarrow>
   world result" where
  "RecordEnvironment env plugin_list profile_metrics =
     block
       [DCHECK env (\<lambda>w. \<not> locked (mlog w)),
        OPEN_ELEMENT_FOR_SCOPE ''profile''
          [ok (WriteCommonEventAttributes env),
           WriteInstallElement env,
           WritePluginList env plugin_list True,
           WriteStabilityElement env plugin_list,
           OPEN_ELEMENT_FOR_SCOPE ''cpu''
             [ok (WriteAttribute ''arch'' (CPUArchitecture env))],
           OPEN_ELEMENT_FOR_SCOPE ''memory''
             [ok (WriteIntAttribute ''mb'' (AmountOfPhysicalMemoryMB env)),
              ok (ifdef (os_win env) (WriteIntAttribute ''dllbase'' (ucast (ImageBase env))))],
           OPEN_ELEMENT_FOR_SCOPE ''os''
             [ok (WriteAttribute ''name'' (OperatingSystemName env)),
              ok (WriteAttribute ''version'' (OperatingSystemVersion env))],
           OPEN_ELEMENT_FOR_SCOPE ''gpu''
             [ok (WriteIntAttribute ''vendorid'' (gi_vendor_id (GetGPUInfo env))),
              ok (WriteIntAttribute ''deviceid'' (gi_device_id (GetGPUInfo env)))],
           OPEN_ELEMENT_FOR_SCOPE ''display''
             [ok (WriteIntAttribute ''xsize'' (fst (GetScreenSize env))),
              ok (WriteIntAttribute ''ysize'' (snd (GetScreenSize env))),
              ok (WriteIntAttribute ''screens'' (GetScreenCount env))],
           OPEN_ELEMENT_FOR_SCOPE ''bookmarks''
             [(\<lambda>w.
                let num_bookmarks_on_bookmark_bar =
                      GetInteger (local_state w) kNumBookmarksOnBookmarkBar;
                    num_folders_on_bookmark_bar =
                      GetInteger (local_state w) kNumFoldersOnBookmarkBar;
                    num_bookmarks_in_other_bookmarks_folder =
                      GetInteger (local_state w) kNumBookmarksInOtherBookmarkFolder;
                    num_folders_in_other_bookmarks_folder =
                      GetInteger (local_state w) kNumFoldersInOtherBookmarkFolder
                in block
                     [OPEN_ELEMENT_FOR_SCOPE ''bookmarklocation''
                        [ok (WriteAttribute ''name'' ''full-tree''),
                         ok (WriteIntAttribute ''foldercount''
                               (num_folders_on_bookmark_bar +
                                num_folders_in_other_bookmarks_folder)),
                         ok (WriteIntAttribute ''itemcount''
                               (num_bookmarks_on_bookmark_bar +
                                num_bookmarks_in_other_bookmarks_folder))],
                      OPEN_ELEMENT_FOR_SCOPE ''bookmarklocation''
                        [ok (WriteAttribute ''name'' ''toolbar''),
                         ok (WriteIntAttribute ''foldercount'' num_folders_on_bookmark_bar),
                         ok (WriteIntAttribute ''itemcount'' num_bookmarks_on_bookmark_bar)]]
                     w)],
           OPEN_ELEMENT_FOR_SCOPE ''keywords''
             [(\<lambda>w. Done (WriteIntAttribute ''count'' (GetInteger (local_state w) kNumKeywords) w))],
           (case profile_metrics of
              None \<Rightarrow> Done
            | Some all_profiles_metrics \<Rightarrow> WriteAllProfilesMetrics env all_profiles_metrics),
           RecordEnvironmentProto env plugin_list]]"

text \<open>
  The three conversions of \<open>RecordOmniboxOpenedURL\<close>; \<open>None\<close> is the failed
  \<open>NOTREACHED\<close> of the default branch, which returns the fallback value when
  assertions are compiled out.
\<close>

definition NOTREACHED_return :: "environment \<Rightarrow> 'a \<Rightarrow> 'a option" where
  "NOTREACHED_return env fallback = (if dcheck_is_on env then None else Some fallback)"

fun AsOmniboxEventInputType ::
  "environment \<Rightarrow> AutocompleteInput_Type \<Rightarrow> OmniboxEvent_InputType option" where
  "AsOmniboxEventInputType env AI_INVALID = Some INVALID"
| "AsOmniboxEventInputType env AI_UNKNOWN = Some UNKNOWN"
| "AsOmniboxEventInputType env AI_REQUESTED_URL = Some REQUESTED_URL"
| "AsOmniboxEventInputType env AI_URL = Some URL"
| "AsOmniboxEventInputType env AI_QUERY = Some QUERY"
| "AsOmniboxEventInputType env AI_FORCED_QUERY = Some FORCED_QUERY"
| "AsOmniboxEventInputType env AI_OTHER = NOTREACHED_return env INVALID"

definition AsOmniboxEventProviderType ::
  "environment \<Rightarrow> string option \<Rightarrow> Suggestion_ProviderType option" where
  "AsOmniboxEventProviderType env provider =
     (case provider of
        None \<Rightarrow> Some UNKNOWN_PROVIDER
      | Some name \<Rightarrow>
          if name = ''HistoryURL'' then Some PROVIDER_URL
          else if name = ''HistoryContents'' then Some HISTORY_CONTENTS
          else if name = ''HistoryQuickProvider'' then Some HISTORY_QUICK
          else if name = ''Search'' then Some SEARCH
          else if name = ''Keyword'' then Some KEYWORD
          else if name = ''Builtin'' then Some BUILTIN
          else if name = ''ShortcutsProvider'' then Some SHORTCUTS
          else if name = ''ExtensionApps'' then Some EXTENSION_APPS
          else NOTREACHED_return env UNKNOWN_PROVIDER)"

fun AsOmniboxEventResultType ::
  "environment \<Rightarrow> AutocompleteMatch_Type \<Rightarrow> Suggestion_ResultType option" where
  "AsOmniboxEventResultType env AM_URL_WHAT_YOU_TYPED = Some URL_WHAT_YOU_TYPED"
| "AsOmniboxEventResultType env AM_HISTORY_URL = Some HISTORY_URL"
| "AsOmniboxEventResultType env AM_HISTORY_TITLE = Some HISTORY_TITLE"
| "AsOmniboxEventResultType env AM_HISTORY_BODY = Some HISTORY_BODY"
| "AsOmniboxEventResultType env AM_HISTORY_KEYWORD = Some HISTORY_KEYWORD"
| "AsOmniboxEventResultType env AM_NAVSUGGEST = Some NAVSUGGEST"
| "AsOmniboxEventResultType env AM_SEARCH_WHAT_YOU_TYPED = Some SEARCH_WHAT_YOU_TYPED"
| "AsOmniboxEventResultType env AM_SEARCH_HISTORY = Some SEARCH_HISTORY"
| "AsOmniboxEventResultType env AM_SEARCH_SUGGEST = Some SEARCH_SUGGEST"
| "AsOmniboxEventResultType env AM_SEARCH_OTHER_ENGINE = Some SEARCH_OTHER_ENGINE"
| "AsOmniboxEventResultType env AM_EXTENSION_APP = Some EXTENSION_APP"
| "AsOmniboxEventResultType env AM_NUM_TYPES = NOTREACHED_return env UNKNOWN_RESULT_TYPE"

text \<open>
  The pointers returned by \<open>add_omnibox_event()\<close> and \<open>add_suggestion()\<close> point to
  the element just appended: a write through them changes the last element.
\<close>

definition at_back :: "('a \<Rightarrow> 'a) \<Rightarrow> 'a list \<Rightarrow> 'a list" where
  "at_back f xs = (case rev xs of [] \<Rightarrow> [] | x # before \<Rightarrow> rev before @ [f x])"

definition omnibox_event_ptr :: "(OmniboxEventProto \<Rightarrow> OmniboxEventProto) \<Rightarrow> world \<Rightarrow> world" where
  "omnibox_event_ptr f = mlog_update (uma_proto_update (omnibox_event_update (at_back f)))"

definition suggestion_ptr :: "(Suggestion \<Rightarrow> Suggestion) \<Rightarrow> world \<Rightarrow> world" where
  "suggestion_ptr f = omnibox_event_ptr (oe_suggestion_update (at_back f))"

definition RecordOmniboxOpenedURL :: "environment \<Rightarrow> AutocompleteLog \<Rightarrow> world \<Rightarrow> world result" where
  "RecordOmniboxOpenedURL env autocomplete_log =
     (let num_terms = (of_nat (length (Tokenize env (al_text autocomplete_log))) :: int32);
          typing_duration_is_set =
            (al_elapsed_time_since_user_first_modified_omnibox autocomplete_log \<noteq> - 1000)
      in block
       [DCHECK env (\<lambda>w. \<not> locked (mlog w)),
        OPEN_ELEMENT_FOR_SCOPE ''uielement''
          [ok (WriteAttribute ''action'' ''autocomplete''),
           ok (WriteAttribute ''targetidhash'' []),
           ok (WriteIntAttribute ''window'' 0),
           ok (if al_tab_id autocomplete_log \<noteq> - 1 then WriteIntAttribute ''tab'' (al_tab_id autocomplete_log) else id),
           ok (WriteCommonEventAttributes env),
           OPEN_ELEMENT_FOR_SCOPE ''autocomplete''
             ([ok (WriteIntAttribute ''typedlength'' (of_nat (length (al_text autocomplete_log)))),
               ok (WriteIntAttribute ''numterms'' num_terms),
               ok (WriteIntAttribute ''selectedindex'' (of_nat (al_selected_index autocomplete_log))),
               ok (WriteIntAttribute ''completedlength''
                     (of_nat (al_inline_autocompleted_length autocomplete_log))),
               ok (if typing_duration_is_set
                   then WriteInt64Attribute ''typingduration''
                          (InMilliseconds (al_elapsed_time_since_user_first_modified_omnibox autocomplete_log))
                   else id),
               ok (if InputTypeToString env (al_input_type autocomplete_log) \<noteq> []
                   then WriteAttribute ''inputtype'' (InputTypeToString env (al_input_type autocomplete_log))
                   else id)] @
              map (\<lambda>i.
                OPEN_ELEMENT_FOR_SCOPE ''autocompleteitem''
                  [ok (case am_provider i of
                         None \<Rightarrow> id
                       | Some name \<Rightarrow> WriteAttribute ''provider'' name),
                   ok (if MatchTypeToString env (am_type i) \<noteq> []
                       then WriteAttribute ''resulttype'' (MatchTypeToString env (am_type i))
                       else id),
                   ok (WriteIntAttribute ''relevance'' (am_relevance i)),
                   ok (WriteIntAttribute ''isstarred'' (if am_starred i then 1 else 0))])
                (al_result autocomplete_log)),
           ok (mlog_update (uma_proto_update (omnibox_event_update (\<lambda>events.
                 events @ [new_OmniboxEventProto\<lparr>oe_time := Some (GetCurrentTime env)\<rparr>])))),
           ok (if al_tab_id autocomplete_log \<noteq> - 1
               then omnibox_event_ptr (oe_tab_id_update (\<lambda>_. Some (al_tab_id autocomplete_log))) else id),
           ok (omnibox_event_ptr (\<lambda>event.
                 event\<lparr>oe_typed_length := Some (of_nat (length (al_text autocomplete_log))),
                       oe_num_typed_terms := Some num_terms,
                       oe_selected_index := Some (of_nat (al_selected_index autocomplete_log)),
                       oe_completed_length :=
                         Some (of_nat (al_inline_autocompleted_length autocomplete_log))\<rparr>)),
           ok (if typing_duration_is_set
               then omnibox_event_ptr (oe_typing_duration_ms_update (\<lambda>_.
                      Some (InMilliseconds
                              (al_elapsed_time_since_user_first_modified_omnibox autocomplete_log))))
               else id),
           (\<lambda>w. case AsOmniboxEventInputType env (al_input_type autocomplete_log) of
                   None \<Rightarrow> ProgrammingFault w
                 | Some input_type \<Rightarrow>
                     Done (omnibox_event_ptr (oe_input_type_update (\<lambda>_. Some input_type)) w)),
           block (map (\<lambda>i.
             block
               [ok (omnibox_event_ptr (oe_suggestion_update (\<lambda>suggestions.
                      suggestions @
                        [\<lparr>sg_provider = None, sg_result_type = None, sg_relevance = None,
                          sg_is_starred = None\<rparr>]))),
                (\<lambda>w. case AsOmniboxEventProviderType env (am_provider i) of
                        None \<Rightarrow> ProgrammingFault w
                      | Some provider \<Rightarrow>
                          Done (suggestion_ptr (sg_provider_update (\<lambda>_. Some provider)) w)),
                (\<lambda>w. case AsOmniboxEventResultType env (am_type i) of
                        None \<Rightarrow> ProgrammingFault w
                      | Some result_type \<Rightarrow>
                          Done (suggestion_ptr (sg_result_type_update (\<lambda>_. Some result_type)) w)),
                ok (suggestion_ptr (\<lambda>suggestion.
                      suggestion\<lparr>sg_relevance := Some (am_relevance i),
                                 sg_is_starred := Some (am_starred i)\<rparr>))])
             (al_result autocomplete_log)),
           ok (mlog_update (num_events_update (\<lambda>n. n + 1)))]])"

section \<open>Observations on a run\<close>

abbreviation legacy :: "world \<Rightarrow> xml_event list" where
  "legacy w \<equiv> xml (mlog w)"

text \<open>What a run from \<open>w\<close> to \<open>w'\<close> has appended to the legacy stream.\<close>

definition appended :: "world \<Rightarrow> world \<Rightarrow> xml_event list" where
  "appended w w' = drop (length (legacy w)) (legacy w')"

text \<open>The value of the first attribute of a given name in a stretch of the legacy stream.\<close>

fun attribute_value :: "string \<Rightarrow> xml_event list \<Rightarrow> attr_value option" where
  "attribute_value name [] = None"
| "attribute_value name (Attribute n v # es) =
     (if n = name then Some v else attribute_value name es)"
| "attribute_value name (StartElement n # es) = attribute_value name es"
| "attribute_value name (EndElement # es) = attribute_value name es"

text \<open>A counter that is written only when it is not zero, and what an absent one counts as.\<close>

definition nonzero :: "'a::zero \<Rightarrow> 'a option" where
  "nonzero c = (if c \<noteq> 0 then Some c else None)"

definition reported :: "'a::zero option \<Rightarrow> 'a" where
  "reported field = (case field of None \<Rightarrow> 0 | Some c \<Rightarrow> c)"

text \<open>
  The stability snapshot of section 4.5a: the two calls with which both
  \<open>WriteStabilityElement\<close> and \<open>RecordIncrementalStabilityElements\<close> begin the
  \<open>stability\<close> element.
\<close>

definition stability_snapshot :: "environment \<Rightarrow> world \<Rightarrow> world" where
  "stability_snapshot env w =
     WriteRealtimeStabilityAttributes env (WriteRequiredStabilityAttributes w)"

text \<open>A run of increments by collaborators, one per listed counter name.\<close>

definition increments :: "pref_name list \<Rightarrow> PrefService \<Rightarrow> PrefService" where
  "increments paths pref = fold increment paths pref"

text \<open>
  The net effect of a run of statements: on the preferences, on the structured stability
  record, on the legacy stream and on the uptime checkpoint.
\<close>

definition effects ::
  "(PrefService \<Rightarrow> PrefService) \<Rightarrow> (Stability \<Rightarrow> Stability) \<Rightarrow> xml_event list \<Rightarrow>
   (int64 option \<Rightarrow> int64 option) \<Rightarrow> world \<Rightarrow> world" where
  "effects P S es T w =
     pref_update P (mutable_stability S (mlog_update (xml_update (\<lambda>xs. xs @ es))
       (last_updated_time_update T w)))"

text \<open>The seconds between the uptime checkpoint and \<open>now\<close>.\<close>

definition elapsed :: "int64 \<Rightarrow> int64 option \<Rightarrow> int64" where
  "elapsed now checkpoint =
     InSeconds (now - (case checkpoint of None \<Rightarrow> now | Some t \<Rightarrow> t))"

text \<open>
  The counters a stability snapshot consumes, and the field of the structured stability
  record that \<open>WriteRequiredStabilityAttributes\<close> and
  \<open>WriteRealtimeStabilityAttributes\<close> set from each.
\<close>

definition snapshot_counters :: "environment \<Rightarrow> pref_name list" where
  "snapshot_counters env =
     [kStabilityLaunchCount, kStabilityCrashCount, kStabilityPageLoadCount,
      kStabilityRendererCrashCount, kStabilityExtensionRendererCrashCount,
      kStabilityRendererHangCount, kStabilityChildProcessCrashCount] @
     (if os_chromeos env
      then [kStabilityOtherUserCrashCount, kStabilityKernelCrashCount,
            kStabilitySystemUncleanShutdownCount]
      else [])"

fun counter_field :: "pref_name \<Rightarrow> Stability \<Rightarrow> int32 option" where
  "counter_field kStabilityLaunchCount = st_launch_count"
| "counter_field kStabilityCrashCount = st_crash_count"
| "counter_field kStabilityPageLoadCount = st_page_load_count"
| "counter_field kStabilityRendererCrashCount = st_renderer_crash_count"
| "counter_field kStabilityExtensionRendererCrashCount = st_extension_renderer_crash_count"
| "counter_field kStabilityRendererHangCount = st_renderer_hang_count"
| "counter_field kStabilityChildProcessCrashCount = st_child_process_crash_count"
| "counter_field kStabilityOtherUserCrashCount = st_other_user_crash_count"
| "counter_field kStabilityKernelCrashCount = st_kernel_crash_count"
| "counter_field kStabilitySystemUncleanShutdownCount = st_unclean_system_shutdown_count"
| "counter_field _ = (\<lambda>_. None)"

text \<open>A new report over the same preferences and clock.\<close>

definition next_report :: "world \<Rightarrow> world" where
  "next_report w = w\<lparr>mlog := new_MetricsLog\<rparr>"

text \<open>
  What one entry \<open>v\<close> of the persisted plugin list contributes when its iteration
  runs to the end: the legacy element, and the entries added to the structured record.
  \<open>hits_NOTREACHED\<close> tells whether the iteration reaches one of the two
  \<open>NOTREACHED\<close> statements of the loop.
\<close>

definition pluginstability_attributes :: "environment \<Rightarrow> (string \<times> Value) list \<Rightarrow> xml_event list" where
  "pluginstability_attributes env plugin_dict =
     [StartElement ''pluginstability'',
      Attribute ''filename''
        (StringAttr (CreateHashes env (Dict_GetString plugin_dict kStabilityPluginName []))),
      Attribute ''launchcount'' (IntAttr (Dict_GetInteger plugin_dict kStabilityPluginLaunches 0)),
      Attribute ''instancecount''
        (IntAttr (Dict_GetInteger plugin_dict kStabilityPluginInstances 0)),
      Attribute ''crashcount'' (IntAttr (Dict_GetInteger plugin_dict kStabilityPluginCrashes 0))]"

definition legacy_element :: "environment \<Rightarrow> Value \<Rightarrow> xml_event list" where
  "legacy_element env v =
     (case v of
        DictionaryValue plugin_dict \<Rightarrow> pluginstability_attributes env plugin_dict @ [EndElement]
      | _ \<Rightarrow> [])"

definition structured_entries ::
  "environment \<Rightarrow> WebPluginInfo list \<Rightarrow> Value \<Rightarrow> PluginStability list" where
  "structured_entries env plugin_list v =
     (case v of
        DictionaryValue plugin_dict \<Rightarrow>
          (case find_plugin_info plugin_list (Dict_GetString plugin_dict kStabilityPluginName []) of
             None \<Rightarrow> []
           | Some plugin_info \<Rightarrow>
               [\<lparr>ps_plugin =
                   \<lparr>pl_name = Some (wpi_name plugin_info),
                    pl_filename = Some (BaseName env (wpi_path plugin_info)),
                    pl_version = Some (wpi_version plugin_info),
                    pl_is_disabled =
                      map_option (\<lambda>IsPluginEnabled. \<not> IsPluginEnabled plugin_info)
                        (GetPluginPrefs env)\<rparr>,
                 ps_launch_count = Some (Dict_GetInteger plugin_dict kStabilityPluginLaunches 0),
                 ps_instance_count =
                   Some (Dict_GetInteger plugin_dict kStabilityPluginInstances 0),
                 ps_crash_count = Some (Dict_GetInteger plugin_dict kStabilityPluginCrashes 0)\<rparr>])
      | _ \<Rightarrow> [])"

definition hits_NOTREACHED :: "WebPluginInfo list \<Rightarrow> Value \<Rightarrow> bool" where
  "hits_NOTREACHED plugin_list v =
     (case v of
        DictionaryValue plugin_dict \<Rightarrow>
          find_plugin_info plugin_list (Dict_GetString plugin_dict kStabilityPluginName []) = None
      | _ \<Rightarrow> True)"

text \<open>Whether a per-profile metric value has one of the three types that are written.\<close>

fun recognized_type :: "Value \<Rightarrow> bool" where
  "recognized_type (StringValue s) = True"
| "recognized_type (BooleanValue b) = True"
| "recognized_type (IntegerValue i) = True"
| "recognized_type _ = False"

text \<open>The legacy element a per-profile metric contributes: none for an unrecognized type.\<close>

definition profileparam_element :: "string \<Rightarrow> Value \<Rightarrow> xml_event list" where
  "profileparam_element i v =
     (case v of
        StringValue string_value \<Rightarrow>
          [StartElement ''profileparam'', Attribute ''name'' (StringAttr i),
           Attribute ''value'' (StringAttr string_value), EndElement]
      | BooleanValue bool_value \<Rightarrow>
          [StartElement ''profileparam'', Attribute ''name'' (StringAttr i),
           Attribute ''value'' (IntAttr (if bool_value then 1 else 0)), EndElement]
      | IntegerValue int_value \<Rightarrow>
          [StartElement ''profileparam'', Attribute ''name'' (StringAttr i),
           Attribute ''value'' (IntAttr int_value), EndElement]
      | _ \<Rightarrow> [])"



section \<open>Example inputs\<close>

text \<open>
  The scenarios of section 8 of the specification: the counters \<open>launch = 3\<close>,
  \<open>crash = 0\<close>, \<open>page_load = 5\<close>; a usage record of the installed plugin \<open>Foo\<close>
  (version \<open>1.0\<close>) with two crashes; a usage record of \<open>Bar\<close>, which is not installed.
\<close>

definition example_environment :: environment where
  "example_environment =
     \<lparr>dcheck_is_on = True, os_chromeos = False, os_win = False,
      CreateHashes = (\<lambda>s. ''base64('' @ s @ '')''),
      common_event_attributes =
        [(''clientid'', StringAttr ''client''), (''time'', Int64Attr 100),
         (''session'', StringAttr ''7'')],
      GetCurrentTime = 100, TimeTicks_Now = 90000000, profile_manager = None,
      BaseName = (\<lambda>path. rev (takeWhile (\<lambda>ch. ch \<noteq> CHR ''/'') (rev path))),
      StringToInt = (\<lambda>s. (True, 1325376000)),
      ApplicationLocale = ''en-US'', CPUArchitecture = ''x86_64'',
      AmountOfPhysicalMemoryMB = 4096, ImageBase = 0,
      OperatingSystemName = ''Linux'', OperatingSystemVersion = ''3.2'',
      GetGPUInfo =
        \<lparr>gi_vendor_id = 4318, gi_device_id = 1, gi_driver_version = ''1.0'',
         gi_driver_date = ''2012'', gi_graphics = 0, gi_gaming = 0, gi_overall = 0\<rparr>,
      GetScreenSize = (1024, 768), GetScreenCount = 1, GetFieldTrialIds = [],
      kProfilePrefix = ''profile-'', Tokenize = (\<lambda>s. [s]),
      InputTypeToString = (\<lambda>t. ''url''), MatchTypeToString = (\<lambda>t. ''history-url'')\<rparr>"

definition release_environment :: environment where
  "release_environment = example_environment\<lparr>dcheck_is_on := False\<rparr>"

definition chromeos_environment :: environment where
  "chromeos_environment = example_environment\<lparr>os_chromeos := True\<rparr>"

definition example_prefs :: PrefService where
  "example_prefs =
     \<lparr>GetInteger = (\<lambda>_. 0)(kStabilityLaunchCount := 3, kStabilityPageLoadCount := 5),
      GetInt64 = (\<lambda>_. 0),
      GetString = (\<lambda>_. [])(kMetricsClientIDTimestamp := ''1325376000''),
      GetList = (\<lambda>_. None)\<rparr>"

definition example_world :: world where
  "example_world =
     \<lparr>mlog = new_MetricsLog, local_state = example_prefs, last_updated_time = None\<rparr>"

definition Foo :: WebPluginInfo where
  "Foo = \<lparr>wpi_name = ''Foo'', wpi_path = ''/plugins/libfoo.so'', wpi_version = ''1.0''\<rparr>"

definition plugin_world :: "Value list \<Rightarrow> world" where
  "plugin_world plugin_stats_list =
     example_world\<lparr>local_state :=
       example_prefs\<lparr>GetList := (\<lambda>_. None)(kStabilityPluginStats := Some plugin_stats_list)\<rparr>\<rparr>"

definition locked_world :: world where
  "locked_world = example_world\<lparr>mlog := new_MetricsLog\<lparr>locked := True\<rparr>\<rparr>"

definition example_autocomplete_log :: AutocompleteLog where
  "example_autocomplete_log =
     \<lparr>al_text = ''isabelle'', al_input_type = AI_URL, al_selected_index = 0, al_tab_id = 3,
      al_inline_autocompleted_length = 2,
      al_elapsed_time_since_user_first_modified_omnibox = 250000,
      al_result =
        [\<lparr>am_provider = Some ''HistoryURL'', am_type = AM_HISTORY_URL, am_relevance = 1400,
          am_starred = False\<rparr>]\<rparr>"


definition example_profiles_metrics :: "(string \<times> Value) list" where
  "example_profiles_metrics =
     [(''profile-7f3a'',
       DictionaryValue [(''tabs'', IntegerValue 4), (''ratio'', DoubleValue (1 / 2))])]"

section \<open>Basic facts about the state\<close>

lemma block_ok [simp]: "block (ok f # fs) w = block fs (f w)"
  by (simp add: ok_def)

lemma block_fault: "is_fault (g w) \<Longrightarrow> block (g # gs) w = g w"
  by (cases "g w") simp_all

lemma block_append:
  "block (fs @ gs) w =
     (case block fs w of Done w' \<Rightarrow> block gs w' | ProgrammingFault w' \<Rightarrow> ProgrammingFault w')"
  by (induction fs arbitrary: w) (simp_all split: result.splits)

lemma block_block [simp]: "block (block fs # gs) w = block (fs @ gs) w"
  by (simp add: block_append)

lemma block_Done [simp]: "block (Done # fs) w = block fs w"
  by simp

lemma block_ProgrammingFault [simp]: "block (ProgrammingFault # fs) w = ProgrammingFault w"
  by simp

lemma OPEN_ELEMENT_FOR_SCOPE_eq:
  "OPEN_ELEMENT_FOR_SCOPE name body w =
     (case block body (OpenElement name w) of
        Done w' \<Rightarrow> Done (CloseElement w')
      | ProgrammingFault w' \<Rightarrow> ProgrammingFault w')"
  by (cases "block body (OpenElement name w)") (simp_all add: OPEN_ELEMENT_FOR_SCOPE_def ok_def)

lemmas block_Cons = block.simps(2)

declare block.simps(2) [simp del]

lemma NOTREACHED_simps:
  "dcheck_is_on env \<Longrightarrow> NOTREACHED env w = ProgrammingFault w"
  "\<not> dcheck_is_on env \<Longrightarrow> NOTREACHED env w = Done w"
  by (simp_all add: NOTREACHED_def)

lemma block_NOTREACHED:
  "dcheck_is_on env \<Longrightarrow> block (NOTREACHED env # fs) w = ProgrammingFault w"
  "\<not> dcheck_is_on env \<Longrightarrow> block (NOTREACHED env # fs) w = block fs w"
  by (simp_all add: NOTREACHED_def block_Cons)

lemma emit_simps [simp]:
  "legacy (emit e w) = legacy w @ [e]"
  "uma_proto (mlog (emit e w)) = uma_proto (mlog w)"
  "locked (mlog (emit e w)) = locked (mlog w)"
  "num_events (mlog (emit e w)) = num_events (mlog w)"
  "local_state (emit e w) = local_state w"
  "last_updated_time (emit e w) = last_updated_time w"
  "stability (emit e w) = stability w"
  by (simp_all add: emit_def stability_def)

lemma mutable_stability_simps [simp]:
  "legacy (mutable_stability f w) = legacy w"
  "locked (mlog (mutable_stability f w)) = locked (mlog w)"
  "num_events (mlog (mutable_stability f w)) = num_events (mlog w)"
  "local_state (mutable_stability f w) = local_state w"
  "last_updated_time (mutable_stability f w) = last_updated_time w"
  "stability (mutable_stability f w) = f (stability w)"
  by (simp_all add: mutable_stability_def mutable_system_profile_def stability_def)

lemma pref_update_simps [simp]:
  "mlog (pref_update f w) = mlog w"
  "local_state (pref_update f w) = f (local_state w)"
  "last_updated_time (pref_update f w) = last_updated_time w"
  "stability (pref_update f w) = stability w"
  by (simp_all add: pref_update_def stability_def)

lemma xml_update_simps [simp]:
  "stability (mlog_update (xml_update g) w) = stability w"
  "local_state (mlog_update (xml_update g) w) = local_state w"
  "legacy (mlog_update (xml_update g) w) = g (legacy w)"
  by (simp_all add: stability_def)

lemma SetInteger_simps [simp]:
  "GetInteger (SetInteger p v pref) = (GetInteger pref)(p := v)"
  "GetInt64 (SetInteger p v pref) = GetInt64 pref"
  "GetString (SetInteger p v pref) = GetString pref"
  "GetList (SetInteger p v pref) = GetList pref"
  by (simp_all add: SetInteger_def)

lemma SetInt64_simps [simp]:
  "GetInteger (SetInt64 p v pref) = GetInteger pref"
  "GetInt64 (SetInt64 p v pref) = (GetInt64 pref)(p := v)"
  "GetString (SetInt64 p v pref) = GetString pref"
  "GetList (SetInt64 p v pref) = GetList pref"
  by (simp_all add: SetInt64_def)

lemma ClearPref_simps [simp]:
  "GetInteger (ClearPref p pref) = GetInteger pref"
  "GetInt64 (ClearPref p pref) = GetInt64 pref"
  "GetString (ClearPref p pref) = GetString pref"
  "GetList (ClearPref p pref) = (GetList pref)(p := Some [])"
  by (simp_all add: ClearPref_def)

lemma SetInteger_idem: "GetInteger pref p = v \<Longrightarrow> SetInteger p v pref = pref"
  by (cases pref) (simp add: SetInteger_def fun_upd_idem)

lemma pref_update_idem: "f (local_state w) = local_state w \<Longrightarrow> pref_update f w = w"
  by (simp add: pref_update_def)

section \<open>Net effects\<close>

lemma effects_simps [simp]:
  "legacy (effects P S es T w) = legacy w @ es"
  "locked (mlog (effects P S es T w)) = locked (mlog w)"
  "num_events (mlog (effects P S es T w)) = num_events (mlog w)"
  "local_state (effects P S es T w) = P (local_state w)"
  "last_updated_time (effects P S es T w) = T (last_updated_time w)"
  "stability (effects P S es T w) = S (stability w)"
  by (simp_all add: effects_def mutable_stability_def mutable_system_profile_def
      stability_def pref_update_def)

lemma effects_effects:
  "effects P2 S2 es2 T2 (effects P1 S1 es1 T1 w) =
   effects (\<lambda>p. P2 (P1 p)) (\<lambda>s. S2 (S1 s)) (es1 @ es2) (\<lambda>t. T2 (T1 t)) w"
  by (simp add: effects_def mutable_stability_def mutable_system_profile_def pref_update_def)

lemma effects_id: "effects (\<lambda>p. p) (\<lambda>s. s) [] (\<lambda>t. t) w = w"
  by (simp add: effects_def mutable_stability_def mutable_system_profile_def pref_update_def)

lemma emit_effects: "emit e w = effects (\<lambda>p. p) (\<lambda>s. s) [e] (\<lambda>t. t) w"
  by (simp add: effects_def emit_def mutable_stability_def mutable_system_profile_def
      pref_update_def)

lemma mutable_stability_effects:
  "mutable_stability f w = effects (\<lambda>p. p) f [] (\<lambda>t. t) w"
  by (simp add: effects_def mutable_stability_def mutable_system_profile_def pref_update_def)

lemma pref_update_effects: "pref_update f w = effects f (\<lambda>s. s) [] (\<lambda>t. t) w"
  by (simp add: effects_def mutable_stability_def mutable_system_profile_def pref_update_def)

lemma realtime_count_alt:
  "realtime_count path writes w =
     pref_update (SetInteger path 0)
       (if GetInteger (local_state w) path \<noteq> 0
        then writes (GetInteger (local_state w) path) w else w)"
  by (simp add: realtime_count_def Let_def pref_update_idem SetInteger_idem)

lemma cond_update:
  "(if b then st_page_load_count_update (\<lambda>_. v1) else id) =
     st_page_load_count_update (\<lambda>old. if b then v1 else old)"
  "(if b then st_renderer_crash_count_update (\<lambda>_. v1) else id) =
     st_renderer_crash_count_update (\<lambda>old. if b then v1 else old)"
  "(if b then st_extension_renderer_crash_count_update (\<lambda>_. v1) else id) =
     st_extension_renderer_crash_count_update (\<lambda>old. if b then v1 else old)"
  "(if b then st_renderer_hang_count_update (\<lambda>_. v1) else id) =
     st_renderer_hang_count_update (\<lambda>old. if b then v1 else old)"
  "(if b then st_child_process_crash_count_update (\<lambda>_. v1) else id) =
     st_child_process_crash_count_update (\<lambda>old. if b then v1 else old)"
  "(if b then st_other_user_crash_count_update (\<lambda>_. v1) else id) =
     st_other_user_crash_count_update (\<lambda>old. if b then v1 else old)"
  "(if b then st_kernel_crash_count_update (\<lambda>_. v1) else id) =
     st_kernel_crash_count_update (\<lambda>old. if b then v1 else old)"
  "(if b then st_unclean_system_shutdown_count_update (\<lambda>_. v1) else id) =
     st_unclean_system_shutdown_count_update (\<lambda>old. if b then v1 else old)"
  "(if b then st_uptime_sec_update (\<lambda>_. v2) else id) =
     st_uptime_sec_update (\<lambda>old. if b then v2 else old)"
  by (auto simp: fun_eq_iff)

lemma rt_step:
  "realtime_count path
     (\<lambda>count w. mutable_stability (f count) (WriteIntAttribute name count w)) w =
   effects (SetInteger path 0)
     (if GetInteger (local_state w) path \<noteq> 0 then f (GetInteger (local_state w) path) else id)
     (if GetInteger (local_state w) path \<noteq> 0
      then [Attribute name (IntAttr (GetInteger (local_state w) path))] else [])
     (\<lambda>t. t) w"
  by (simp add: realtime_count_alt effects_def Let_def WriteIntAttribute_def emit_def
      mutable_stability_def mutable_system_profile_def pref_update_def)

lemma rt_step_proto:
  "realtime_count path (\<lambda>count. mutable_stability (f count)) w =
   effects (SetInteger path 0)
     (if GetInteger (local_state w) path \<noteq> 0 then f (GetInteger (local_state w) path) else id)
     [] (\<lambda>t. t) w"
  by (simp add: realtime_count_alt effects_def Let_def mutable_stability_def
      mutable_system_profile_def pref_update_def)

lemma fst_GetIncrementalUptime:
  "fst (GetIncrementalUptime now w) = elapsed now (last_updated_time w)"
  by (simp add: GetIncrementalUptime_def Let_def elapsed_def)

lemma snd_GetIncrementalUptime:
  "snd (GetIncrementalUptime now w) =
     effects (\<lambda>pref. if 0 <s elapsed now (last_updated_time w)
        then SetInt64 kUninstallMetricsUptimeSec
               (GetInt64 pref kUninstallMetricsUptimeSec + elapsed now (last_updated_time w)) pref
        else pref) (\<lambda>s. s) [] (\<lambda>_. Some now) w"
  by (simp add: GetIncrementalUptime_def Let_def pref_update_def effects_def elapsed_def
      mutable_stability_def mutable_system_profile_def)

lemma uptime_write:
  "(if d \<noteq> 0
    then mutable_stability (st_uptime_sec_update (\<lambda>_. Some d))
           (WriteInt64Attribute ''uptimesec'' d w)
    else w) =
   effects (\<lambda>p. p) (st_uptime_sec_update (\<lambda>old. if d \<noteq> 0 then Some d else old))
     (if d \<noteq> 0 then [Attribute ''uptimesec'' (Int64Attr d)] else []) (\<lambda>t. t) w"
  by (simp add: effects_def WriteInt64Attribute_def emit_def mutable_stability_def
      mutable_system_profile_def pref_update_def)

lemma uptime_step:
  "(case GetIncrementalUptime now w of (d, w9) \<Rightarrow>
      if d \<noteq> 0 then mutable_stability (st_uptime_sec_update (\<lambda>_. Some d))
                (WriteInt64Attribute ''uptimesec'' d w9) else w9) =
   effects (\<lambda>pref. if 0 <s elapsed now (last_updated_time w)
        then SetInt64 kUninstallMetricsUptimeSec
               (GetInt64 pref kUninstallMetricsUptimeSec + elapsed now (last_updated_time w)) pref
        else pref)
     (st_uptime_sec_update (\<lambda>old. if elapsed now (last_updated_time w) \<noteq> 0
         then Some (elapsed now (last_updated_time w)) else old))
     (if elapsed now (last_updated_time w) \<noteq> 0
      then [Attribute ''uptimesec'' (Int64Attr (elapsed now (last_updated_time w)))] else [])
     (\<lambda>_. Some now) w"
  by (simp add: case_prod_beta uptime_write snd_GetIncrementalUptime fst_GetIncrementalUptime
      effects_effects split del: if_split cong: if_cong)

lemma WriteRequired_effects:
  "WriteRequiredStabilityAttributes w =
     effects (\<lambda>p. SetInteger kStabilityCrashCount 0 (SetInteger kStabilityLaunchCount 0 p))
       (\<lambda>s. s\<lparr>st_launch_count := Some (GetInteger (local_state w) kStabilityLaunchCount),
              st_crash_count := Some (GetInteger (local_state w) kStabilityCrashCount)\<rparr>)
       [Attribute ''launchcount'' (IntAttr (GetInteger (local_state w) kStabilityLaunchCount)),
        Attribute ''crashcount'' (IntAttr (GetInteger (local_state w) kStabilityCrashCount))]
       (\<lambda>t. t) w"
  by (simp add: WriteRequiredStabilityAttributes_def Let_def effects_def WriteIntAttribute_def
      emit_def mutable_stability_def mutable_system_profile_def pref_update_def)

lemma WriteRealtime_effects:
  fixes env w
  defines "c \<equiv> GetInteger (local_state w)"
  defines "d \<equiv> elapsed (TimeTicks_Now env) (last_updated_time w)"
  defines "R \<equiv> \<lambda>p.
          (if os_chromeos env
            then (\<lambda>q. SetInteger kStabilitySystemUncleanShutdownCount 0
                    (SetInteger kStabilityKernelCrashCount 0
                      (SetInteger kStabilityOtherUserCrashCount 0 q)))
            else (\<lambda>q. q))
             (SetInteger kStabilityChildProcessCrashCount 0
               (SetInteger kStabilityRendererHangCount 0
                 (SetInteger kStabilityExtensionRendererCrashCount 0
                   (SetInteger kStabilityRendererCrashCount 0
                     (SetInteger kStabilityPageLoadCount 0 p)))))"
  shows "WriteRealtimeStabilityAttributes env w =
     effects
       (\<lambda>p. if 0 <s d
            then SetInt64 kUninstallMetricsUptimeSec (GetInt64 p kUninstallMetricsUptimeSec + d)
                   (R p)
            else R p)
       (\<lambda>s. st_uptime_sec_update (\<lambda>old. if d \<noteq> 0 then Some d else old)
         ((if os_chromeos env
           then (\<lambda>s. st_unclean_system_shutdown_count_update
                   (\<lambda>old. if c kStabilitySystemUncleanShutdownCount \<noteq> 0
                          then Some (c kStabilitySystemUncleanShutdownCount) else old)
                 (st_kernel_crash_count_update
                   (\<lambda>old. if c kStabilityKernelCrashCount \<noteq> 0
                          then Some (c kStabilityKernelCrashCount) else old)
                 (st_other_user_crash_count_update
                   (\<lambda>old. if c kStabilityOtherUserCrashCount \<noteq> 0
                          then Some (c kStabilityOtherUserCrashCount) else old) s)))
           else (\<lambda>s. s))
          (st_child_process_crash_count_update
             (\<lambda>old. if c kStabilityChildProcessCrashCount \<noteq> 0
                    then Some (c kStabilityChildProcessCrashCount) else old)
          (st_renderer_hang_count_update
             (\<lambda>old. if c kStabilityRendererHangCount \<noteq> 0
                    then Some (c kStabilityRendererHangCount) else old)
          (st_extension_renderer_crash_count_update
             (\<lambda>old. if c kStabilityExtensionRendererCrashCount \<noteq> 0
                    then Some (c kStabilityExtensionRendererCrashCount) else old)
          (st_renderer_crash_count_update
             (\<lambda>old. if c kStabilityRendererCrashCount \<noteq> 0
                    then Some (c kStabilityRendererCrashCount) else old)
          (st_page_load_count_update
             (\<lambda>old. if c kStabilityPageLoadCount \<noteq> 0
                    then Some (c kStabilityPageLoadCount) else old) s)))))))
       ((if c kStabilityPageLoadCount \<noteq> 0
         then [Attribute ''pageloadcount'' (IntAttr (c kStabilityPageLoadCount))] else []) @
        (if c kStabilityRendererCrashCount \<noteq> 0
         then [Attribute ''renderercrashcount'' (IntAttr (c kStabilityRendererCrashCount))]
         else []) @
        (if c kStabilityExtensionRendererCrashCount \<noteq> 0
         then [Attribute ''extensionrenderercrashcount''
                 (IntAttr (c kStabilityExtensionRendererCrashCount))]
         else []) @
        (if c kStabilityRendererHangCount \<noteq> 0
         then [Attribute ''rendererhangcount'' (IntAttr (c kStabilityRendererHangCount))]
         else []) @
        (if c kStabilityChildProcessCrashCount \<noteq> 0
         then [Attribute ''childprocesscrashcount''
                 (IntAttr (c kStabilityChildProcessCrashCount))]
         else []) @
        (if d \<noteq> 0 then [Attribute ''uptimesec'' (Int64Attr d)] else []))
       (\<lambda>_. Some (TimeTicks_Now env)) w"
proof (cases "os_chromeos env")
  case True
  show ?thesis
    unfolding WriteRealtimeStabilityAttributes_def Let_def uptime_step c_def d_def R_def
    by (simp add: True rt_step rt_step_proto ifdef_def cond_update effects_effects
        split del: if_split cong: if_cong)
next
  case False
  show ?thesis
    unfolding WriteRealtimeStabilityAttributes_def Let_def uptime_step c_def d_def R_def
    by (simp add: False rt_step rt_step_proto ifdef_def cond_update effects_effects
        split del: if_split cong: if_cong)
qed


lemma snapshot_effects:
  "stability_snapshot env w =
     WriteRealtimeStabilityAttributes env
       (effects (\<lambda>p. SetInteger kStabilityCrashCount 0 (SetInteger kStabilityLaunchCount 0 p))
       (\<lambda>s. s\<lparr>st_launch_count := Some (GetInteger (local_state w) kStabilityLaunchCount),
              st_crash_count := Some (GetInteger (local_state w) kStabilityCrashCount)\<rparr>)
       [Attribute ''launchcount'' (IntAttr (GetInteger (local_state w) kStabilityLaunchCount)),
        Attribute ''crashcount'' (IntAttr (GetInteger (local_state w) kStabilityCrashCount))]
       (\<lambda>t. t) w)"
  by (simp add: stability_snapshot_def WriteRequired_effects [symmetric])

lemmas snapshot_simps = snapshot_effects WriteRealtime_effects

lemma attribute_value_append:
  "attribute_value name (xs @ ys) =
     (case attribute_value name xs of None \<Rightarrow> attribute_value name ys | Some v \<Rightarrow> Some v)"
  by (induction name xs rule: attribute_value.induct) simp_all

lemma appended_effects [simp]: "appended w (effects P S es T w) = es"
  by (simp add: appended_def)

lemma appended_append: "legacy w' = legacy w @ es \<Longrightarrow> appended w w' = es"
  by (simp add: appended_def)

lemma snapshot_legacy:
  "appended w (stability_snapshot env w) =
     [Attribute ''launchcount'' (IntAttr (GetInteger (local_state w) kStabilityLaunchCount)),
      Attribute ''crashcount'' (IntAttr (GetInteger (local_state w) kStabilityCrashCount))] @
     (if GetInteger (local_state w) kStabilityPageLoadCount \<noteq> 0
      then [Attribute ''pageloadcount'' (IntAttr (GetInteger (local_state w) kStabilityPageLoadCount))] else []) @
     (if GetInteger (local_state w) kStabilityRendererCrashCount \<noteq> 0
      then [Attribute ''renderercrashcount'' (IntAttr (GetInteger (local_state w) kStabilityRendererCrashCount))] else []) @
     (if GetInteger (local_state w) kStabilityExtensionRendererCrashCount \<noteq> 0
      then [Attribute ''extensionrenderercrashcount'' (IntAttr (GetInteger (local_state w) kStabilityExtensionRendererCrashCount))] else []) @
     (if GetInteger (local_state w) kStabilityRendererHangCount \<noteq> 0
      then [Attribute ''rendererhangcount'' (IntAttr (GetInteger (local_state w) kStabilityRendererHangCount))] else []) @
     (if GetInteger (local_state w) kStabilityChildProcessCrashCount \<noteq> 0
      then [Attribute ''childprocesscrashcount'' (IntAttr (GetInteger (local_state w) kStabilityChildProcessCrashCount))] else []) @
     (if elapsed (TimeTicks_Now env) (last_updated_time w) \<noteq> 0
      then [Attribute ''uptimesec'' (Int64Attr (elapsed (TimeTicks_Now env) (last_updated_time w)))] else [])"
  by (rule appended_append) (simp add: snapshot_simps split del: if_split cong: if_cong)


lemma snapshot_prefs:
  "GetInteger (local_state (stability_snapshot env w)) =
    (if os_chromeos env
     then (\<lambda>f. f(kStabilityOtherUserCrashCount := 0, kStabilityKernelCrashCount := 0,
                  kStabilitySystemUncleanShutdownCount := 0))
     else (\<lambda>f. f))
     ((GetInteger (local_state w))(kStabilityLaunchCount := 0, kStabilityCrashCount := 0,
       kStabilityPageLoadCount := 0, kStabilityRendererCrashCount := 0,
       kStabilityExtensionRendererCrashCount := 0, kStabilityRendererHangCount := 0,
       kStabilityChildProcessCrashCount := 0))"
  by (simp add: snapshot_simps)

lemma snapshot_fields:
  fixes env w
  defines "c \<equiv> GetInteger (local_state w)" and "s \<equiv> stability w"
    and "s' \<equiv> stability (stability_snapshot env w)"
  shows "st_launch_count s' = Some (c kStabilityLaunchCount)"
    and "st_crash_count s' = Some (c kStabilityCrashCount)"
    and "st_page_load_count s' =
           (if c kStabilityPageLoadCount \<noteq> 0 then Some (c kStabilityPageLoadCount)
            else st_page_load_count s)"
    and "st_renderer_crash_count s' =
           (if c kStabilityRendererCrashCount \<noteq> 0 then Some (c kStabilityRendererCrashCount)
            else st_renderer_crash_count s)"
    and "st_extension_renderer_crash_count s' =
           (if c kStabilityExtensionRendererCrashCount \<noteq> 0
            then Some (c kStabilityExtensionRendererCrashCount)
            else st_extension_renderer_crash_count s)"
    and "st_renderer_hang_count s' =
           (if c kStabilityRendererHangCount \<noteq> 0 then Some (c kStabilityRendererHangCount)
            else st_renderer_hang_count s)"
    and "st_child_process_crash_count s' =
           (if c kStabilityChildProcessCrashCount \<noteq> 0
            then Some (c kStabilityChildProcessCrashCount)
            else st_child_process_crash_count s)"
    and "st_other_user_crash_count s' =
           (if os_chromeos env \<and> c kStabilityOtherUserCrashCount \<noteq> 0
            then Some (c kStabilityOtherUserCrashCount) else st_other_user_crash_count s)"
    and "st_kernel_crash_count s' =
           (if os_chromeos env \<and> c kStabilityKernelCrashCount \<noteq> 0
            then Some (c kStabilityKernelCrashCount) else st_kernel_crash_count s)"
    and "st_unclean_system_shutdown_count s' =
           (if os_chromeos env \<and> c kStabilitySystemUncleanShutdownCount \<noteq> 0
            then Some (c kStabilitySystemUncleanShutdownCount)
            else st_unclean_system_shutdown_count s)"
    and "st_uptime_sec s' =
           (if elapsed (TimeTicks_Now env) (last_updated_time w) \<noteq> 0
            then Some (elapsed (TimeTicks_Now env) (last_updated_time w))
            else st_uptime_sec s)"
  unfolding c_def s_def s'_def by (simp_all add: snapshot_simps)

lemma new_Stability_fields [simp]:
  "st_launch_count new_Stability = None"
  "st_crash_count new_Stability = None"
  "st_page_load_count new_Stability = None"
  "st_renderer_crash_count new_Stability = None"
  "st_extension_renderer_crash_count new_Stability = None"
  "st_renderer_hang_count new_Stability = None"
  "st_child_process_crash_count new_Stability = None"
  "st_other_user_crash_count new_Stability = None"
  "st_kernel_crash_count new_Stability = None"
  "st_unclean_system_shutdown_count new_Stability = None"
  "st_uptime_sec new_Stability = None"
  "st_plugin_stability new_Stability = []"
  by (simp_all add: new_Stability_def)

lemma snapshot_attribute_values:
  fixes env w
  defines "c \<equiv> GetInteger (local_state w)"
    and "written \<equiv> appended w (stability_snapshot env w)"
  shows "attribute_value ''launchcount'' written = Some (IntAttr (c kStabilityLaunchCount))"
    and "attribute_value ''crashcount'' written = Some (IntAttr (c kStabilityCrashCount))"
    and "attribute_value ''pageloadcount'' written =
           map_option IntAttr (nonzero (c kStabilityPageLoadCount))"
    and "attribute_value ''renderercrashcount'' written =
           map_option IntAttr (nonzero (c kStabilityRendererCrashCount))"
    and "attribute_value ''extensionrenderercrashcount'' written =
           map_option IntAttr (nonzero (c kStabilityExtensionRendererCrashCount))"
    and "attribute_value ''rendererhangcount'' written =
           map_option IntAttr (nonzero (c kStabilityRendererHangCount))"
    and "attribute_value ''childprocesscrashcount'' written =
           map_option IntAttr (nonzero (c kStabilityChildProcessCrashCount))"
    and "attribute_value ''uptimesec'' written =
           map_option Int64Attr (nonzero (elapsed (TimeTicks_Now env) (last_updated_time w)))"
  unfolding c_def written_def snapshot_legacy
  by (simp_all add: attribute_value_append nonzero_def)

lemma example_world_simps [simp]:
  "stability example_world = new_Stability"
  "legacy example_world = []"
  "local_state example_world = example_prefs"
  "last_updated_time example_world = None"
  "locked (mlog example_world) = False"
  by (simp_all add: example_world_def stability_def new_MetricsLog_def new_SystemProfileProto_def)

lemma example_prefs_simps [simp]:
  "GetInteger example_prefs = (\<lambda>_. 0)(kStabilityLaunchCount := 3, kStabilityPageLoadCount := 5)"
  "GetInt64 example_prefs = (\<lambda>_. 0)"
  "GetList example_prefs = (\<lambda>_. None)"
  by (simp_all add: example_prefs_def)

lemma increment_GetInteger:
  "GetInteger (increment path pref) k = GetInteger pref k + (if k = path then 1 else 0)"
  by (simp add: increment_def)

lemma increments_GetInteger:
  "GetInteger (increments paths pref) k = GetInteger pref k + of_nat (count_list paths k)"
  by (induction paths arbitrary: pref) (simp_all add: increments_def increment_GetInteger)

lemma next_report_simps [simp]:
  "stability (next_report w) = new_Stability"
  "local_state (next_report w) = local_state w"
  "last_updated_time (next_report w) = last_updated_time w"
  "legacy (next_report w) = []"
  "locked (mlog (next_report w)) = False"
  by (simp_all add: next_report_def stability_def new_MetricsLog_def new_SystemProfileProto_def)

lemma snapshot_reports_counter:
  assumes "stability w = new_Stability" and "k \<in> set (snapshot_counters env)"
  shows "reported (counter_field k (stability (stability_snapshot env w))) =
           GetInteger (local_state w) k"
  using assms(2)
  by (auto simp: snapshot_counters_def snapshot_fields assms(1) reported_def split: if_splits)

lemma snapshot_resets_counter:
  assumes "k \<in> set (snapshot_counters env)"
  shows "GetInteger (local_state (stability_snapshot env w)) k = 0"
  using assms by (auto simp: snapshot_counters_def snapshot_prefs split: if_splits)

section \<open>The plugin loop\<close>

lemmas to_effects = OpenElement_def CloseElement_def WriteAttribute_def WriteIntAttribute_def
  WriteInt64Attribute_def emit_effects mutable_stability_effects pref_update_effects
  effects_effects

lemma plugin_stats_iteration_Done:
  assumes "dcheck_is_on env \<longrightarrow> \<not> hits_NOTREACHED plugin_list v"
  shows "plugin_stats_iteration env plugin_list v w =
     Done (effects (\<lambda>p. p)
            (\<lambda>s. s\<lparr>st_plugin_stability :=
                     st_plugin_stability s @ structured_entries env plugin_list v\<rparr>)
            (legacy_element env v) (\<lambda>t. t) w)"
proof (cases v)
  case (DictionaryValue plugin_dict)
  show ?thesis
  proof (cases "find_plugin_info plugin_list (Dict_GetString plugin_dict kStabilityPluginName [])")
    case None
    with assms DictionaryValue have "\<not> dcheck_is_on env"
      by (simp add: hits_NOTREACHED_def)
    then show ?thesis
      by (simp add: plugin_stats_iteration_def DictionaryValue None Let_def
          OPEN_ELEMENT_FOR_SCOPE_eq block_NOTREACHED to_effects legacy_element_def
          structured_entries_def pluginstability_attributes_def)
  next
    case (Some plugin_info)
    then show ?thesis
      by (simp add: plugin_stats_iteration_def DictionaryValue Let_def
          OPEN_ELEMENT_FOR_SCOPE_eq to_effects legacy_element_def
          structured_entries_def pluginstability_attributes_def SetPluginInfo_def new_Plugin_def
          split: option.splits)
  qed
qed (use assms in \<open>simp_all add: plugin_stats_iteration_def hits_NOTREACHED_def
       NOTREACHED_simps legacy_element_def structured_entries_def effects_id\<close>)

lemma plugin_stats_iteration_fault:
  assumes "dcheck_is_on env" and "hits_NOTREACHED plugin_list v"
  shows "plugin_stats_iteration env plugin_list v w =
     ProgrammingFault (effects (\<lambda>p. p) (\<lambda>s. s) (butlast (legacy_element env v)) (\<lambda>t. t) w)"
proof (cases v)
  case (DictionaryValue plugin_dict)
  with assms(2)
  have "find_plugin_info plugin_list (Dict_GetString plugin_dict kStabilityPluginName []) = None"
    by (simp add: hits_NOTREACHED_def)
  then show ?thesis
    by (simp add: plugin_stats_iteration_def DictionaryValue Let_def assms(1)
        OPEN_ELEMENT_FOR_SCOPE_eq block_NOTREACHED to_effects legacy_element_def
        pluginstability_attributes_def)
qed (use assms in \<open>simp_all add: plugin_stats_iteration_def NOTREACHED_simps
       legacy_element_def effects_id\<close>)

lemma plugin_loop_Done:
  assumes "dcheck_is_on env \<longrightarrow> (\<forall>v \<in> set vs. \<not> hits_NOTREACHED plugin_list v)"
  shows "block (map (plugin_stats_iteration env plugin_list) vs) w =
     Done (effects (\<lambda>p. p)
            (\<lambda>s. s\<lparr>st_plugin_stability :=
                     st_plugin_stability s @
                     concat (map (structured_entries env plugin_list) vs)\<rparr>)
            (concat (map (legacy_element env) vs)) (\<lambda>t. t) w)"
  using assms
proof (induction vs arbitrary: w)
  case Nil
  show ?case by (simp add: effects_id)
next
  case (Cons v vs)
  from Cons.prems have v: "dcheck_is_on env \<longrightarrow> \<not> hits_NOTREACHED plugin_list v"
    and vs: "dcheck_is_on env \<longrightarrow> (\<forall>v \<in> set vs. \<not> hits_NOTREACHED plugin_list v)"
    by simp_all
  show ?case
    by (simp add: block_Cons plugin_stats_iteration_Done [OF v] Cons.IH [OF vs]
        effects_effects)
qed

lemma plugin_loop_fault:
  assumes "dcheck_is_on env" and "\<exists>v \<in> set vs. hits_NOTREACHED plugin_list v"
  shows "block (map (plugin_stats_iteration env plugin_list) vs) w =
     ProgrammingFault (effects (\<lambda>p. p)
       (\<lambda>s. s\<lparr>st_plugin_stability :=
                st_plugin_stability s @
                concat (map (structured_entries env plugin_list)
                  (takeWhile (\<lambda>v. \<not> hits_NOTREACHED plugin_list v) vs))\<rparr>)
       (concat (map (legacy_element env)
          (takeWhile (\<lambda>v. \<not> hits_NOTREACHED plugin_list v) vs)) @
        butlast (legacy_element env
          (hd (dropWhile (\<lambda>v. \<not> hits_NOTREACHED plugin_list v) vs))))
       (\<lambda>t. t) w)"
  using assms(2)
proof (induction vs arbitrary: w)
  case Nil
  then show ?case by simp
next
  case (Cons v vs)
  show ?case
  proof (cases "hits_NOTREACHED plugin_list v")
    case True
    then show ?thesis
      by (simp add: block_Cons plugin_stats_iteration_fault [OF assms(1) True] effects_id)
  next
    case False
    then have v: "dcheck_is_on env \<longrightarrow> \<not> hits_NOTREACHED plugin_list v"
      by simp
    from False Cons.prems have "\<exists>v \<in> set vs. hits_NOTREACHED plugin_list v"
      by auto
    from Cons.IH [OF this] show ?thesis
      by (simp add: block_Cons plugin_stats_iteration_Done [OF v] False effects_effects)
  qed
qed

lemma WritePluginStabilityElements_Done:
  assumes "GetList (local_state w) kStabilityPluginStats = Some vs"
    and "dcheck_is_on env \<longrightarrow> (\<forall>v \<in> set vs. \<not> hits_NOTREACHED plugin_list v)"
  shows "WritePluginStabilityElements env plugin_list w =
     Done (effects (ClearPref kStabilityPluginStats)
            (\<lambda>s. s\<lparr>st_plugin_stability :=
                     st_plugin_stability s @
                     concat (map (structured_entries env plugin_list) vs)\<rparr>)
            (StartElement ''plugins'' # concat (map (legacy_element env) vs) @ [EndElement])
            (\<lambda>t. t) w)"
  by (simp add: WritePluginStabilityElements_def assms(1) OPEN_ELEMENT_FOR_SCOPE_eq
      block_append plugin_loop_Done [OF assms(2)] to_effects)

lemma WritePluginStabilityElements_fault:
  assumes "GetList (local_state w) kStabilityPluginStats = Some vs"
    and "dcheck_is_on env" and "\<exists>v \<in> set vs. hits_NOTREACHED plugin_list v"
  shows "WritePluginStabilityElements env plugin_list w =
     ProgrammingFault (effects (\<lambda>p. p)
       (\<lambda>s. s\<lparr>st_plugin_stability :=
                st_plugin_stability s @
                concat (map (structured_entries env plugin_list)
                  (takeWhile (\<lambda>v. \<not> hits_NOTREACHED plugin_list v) vs))\<rparr>)
       (StartElement ''plugins'' #
        concat (map (legacy_element env)
          (takeWhile (\<lambda>v. \<not> hits_NOTREACHED plugin_list v) vs)) @
        butlast (legacy_element env
          (hd (dropWhile (\<lambda>v. \<not> hits_NOTREACHED plugin_list v) vs))))
       (\<lambda>t. t) w)"
  by (simp add: WritePluginStabilityElements_def assms(1) OPEN_ELEMENT_FOR_SCOPE_eq
      block_append plugin_loop_fault [OF assms(2,3)] to_effects)

lemma effects_legacy_only:
  "effects (\<lambda>p. p) (\<lambda>s. s) es (\<lambda>t. t) w = mlog_update (xml_update (\<lambda>xs. xs @ es)) w"
  by (simp add: effects_def mutable_stability_def mutable_system_profile_def pref_update_def)

lemma effects_report_only:
  "effects (\<lambda>p. p) S es (\<lambda>t. t) w =
     mutable_stability S (mlog_update (xml_update (\<lambda>xs. xs @ es)) w)"
  by (simp add: effects_def mutable_stability_def mutable_system_profile_def pref_update_def)

lemma find_plugin_info_name:
  "find_plugin_info plugin_list plugin_name = Some plugin_info \<Longrightarrow>
   wpi_name plugin_info = plugin_name \<and> plugin_info \<in> set plugin_list"
  by (induction plugin_list) (auto split: if_splits)

lemma find_plugin_info_None:
  "find_plugin_info plugin_list plugin_name = None \<longleftrightarrow>
   (\<forall>plugin_info \<in> set plugin_list. wpi_name plugin_info \<noteq> plugin_name)"
  by (induction plugin_list) auto

lemma plugin_world_simps [simp]:
  "GetList (local_state (plugin_world vs)) kStabilityPluginStats = Some vs"
  "stability (plugin_world vs) = new_Stability"
  "legacy (plugin_world vs) = []"
  by (simp_all add: plugin_world_def example_world_def example_prefs_def stability_def
      new_MetricsLog_def new_SystemProfileProto_def)

lemma example_environment_simps [simp]:
  "dcheck_is_on example_environment"
  "\<not> dcheck_is_on release_environment"
  "\<not> os_chromeos example_environment"
  "os_chromeos chromeos_environment"
  "CreateHashes example_environment s = ''base64('' @ s @ '')''"
  "CreateHashes release_environment s = ''base64('' @ s @ '')''"
  "GetPluginPrefs example_environment = None"
  "GetPluginPrefs release_environment = None"
  "BaseName example_environment ''/plugins/libfoo.so'' = ''libfoo.so''"
  "BaseName release_environment ''/plugins/libfoo.so'' = ''libfoo.so''"
  by (simp_all add: example_environment_def release_environment_def chromeos_environment_def
      GetPluginPrefs_def)

lemma example_records [simp]:
  "hits_NOTREACHED [Foo] (PluginUsageRecord ''Bar'' a b c)"
  "\<not> hits_NOTREACHED [Foo] (PluginUsageRecord ''Foo'' a b c)"
  "structured_entries env [Foo] (PluginUsageRecord ''Bar'' a b c) = []"
  "structured_entries env [Foo] (PluginUsageRecord ''Foo'' a b c) =
     [\<lparr>ps_plugin =
         \<lparr>pl_name = Some ''Foo'', pl_filename = Some (BaseName env ''/plugins/libfoo.so''),
          pl_version = Some ''1.0'',
          pl_is_disabled = map_option (\<lambda>IsPluginEnabled. \<not> IsPluginEnabled Foo)
            (GetPluginPrefs env)\<rparr>,
       ps_launch_count = Some a, ps_instance_count = Some b, ps_crash_count = Some c\<rparr>]"
  "legacy_element env (PluginUsageRecord n a b c) =
     [StartElement ''pluginstability'',
      Attribute ''filename'' (StringAttr (CreateHashes env n)),
      Attribute ''launchcount'' (IntAttr a), Attribute ''instancecount'' (IntAttr b),
      Attribute ''crashcount'' (IntAttr c), EndElement]"
  by (simp_all add: hits_NOTREACHED_def structured_entries_def legacy_element_def
      pluginstability_attributes_def PluginUsageRecord_def Foo_def Dict_GetString_def
      Dict_GetInteger_def kStabilityPluginName_def kStabilityPluginLaunches_def
      kStabilityPluginInstances_def kStabilityPluginCrashes_def)

lemma WritePluginStabilityElements_cases:
  assumes "GetList (local_state w) kStabilityPluginStats = Some vs"
    and "WritePluginStabilityElements env plugin_list w = Done w'"
  shows "w' = effects (ClearPref kStabilityPluginStats)
            (\<lambda>s. s\<lparr>st_plugin_stability :=
                     st_plugin_stability s @
                     concat (map (structured_entries env plugin_list) vs)\<rparr>)
            (StartElement ''plugins'' # concat (map (legacy_element env) vs) @ [EndElement])
            (\<lambda>t. t) w"
proof (cases "dcheck_is_on env \<and> (\<exists>v \<in> set vs. hits_NOTREACHED plugin_list v)")
  case True
  then have "dcheck_is_on env" and "\<exists>v \<in> set vs. hits_NOTREACHED plugin_list v"
    by simp_all
  from WritePluginStabilityElements_fault [OF assms(1) this] assms(2) show ?thesis
    by simp
next
  case False
  then have "dcheck_is_on env \<longrightarrow> (\<forall>v \<in> set vs. \<not> hits_NOTREACHED plugin_list v)"
    by blast
  from WritePluginStabilityElements_Done [OF assms(1) this] assms(2) show ?thesis
    by simp
qed

lemma ClearPref_idem: "GetList pref path = Some [] \<Longrightarrow> ClearPref path pref = pref"
  by (cases pref) (simp add: ClearPref_def fun_upd_idem)

lemma block_DCHECK:
  "dcheck_is_on env \<Longrightarrow> \<not> cond w \<Longrightarrow> block (DCHECK env cond # fs) w = ProgrammingFault w"
  "cond w \<Longrightarrow> block (DCHECK env cond # fs) w = block fs w"
  "\<not> dcheck_is_on env \<Longrightarrow> block (DCHECK env cond # fs) w = block fs w"
  by (simp_all add: DCHECK_def block_Cons)

lemma block_member_fault:
  "f \<in> set fs \<Longrightarrow> (\<And>s. is_fault (f s)) \<Longrightarrow> is_fault (block fs w)"
proof (induction fs arbitrary: w)
  case Nil
  then show ?case by simp
next
  case (Cons g fs)
  show ?case
  proof (cases "g w")
    case (Done w')
    show ?thesis
    proof (cases "f = g")
      case True
      with Cons.prems(2) [of w] Done show ?thesis by simp
    next
      case False
      with Cons.prems(1) have "f \<in> set fs" by simp
      from Cons.IH [OF this Cons.prems(2)] Done show ?thesis
        by (simp add: block_Cons)
    qed
  next
    case (ProgrammingFault w')
    then show ?thesis by (simp add: block_Cons)
  qed
qed

lemma OPEN_ELEMENT_FOR_SCOPE_fault:
  "is_fault (block body (OpenElement name w)) \<Longrightarrow> is_fault (OPEN_ELEMENT_FOR_SCOPE name body w)"
  by (cases "block body (OpenElement name w)") (simp_all add: OPEN_ELEMENT_FOR_SCOPE_eq)

lemma effects_pref_idem:
  "P (local_state w) = local_state w \<Longrightarrow> effects P S es T w = effects (\<lambda>p. p) S es T w"
  by (simp add: effects_def pref_update_def mutable_stability_def mutable_system_profile_def)

section \<open>Where assertions fail and where they cannot\<close>

lemma no_fault_simps [simp]:
  "is_fault (ok f w) = False"
  "is_fault (Done w) = False"
  "\<not> dcheck_is_on env \<Longrightarrow> is_fault (DCHECK env cond w) = False"
  "\<not> dcheck_is_on env \<Longrightarrow> is_fault (NOTREACHED env w) = False"
  by (simp_all add: ok_def DCHECK_def NOTREACHED_def)

lemma block_no_fault:
  "(\<forall>f \<in> set fs. \<forall>s. \<not> is_fault (f s)) \<Longrightarrow> is_fault (block fs w) = False"
proof (induction fs arbitrary: w)
  case Nil
  show ?case by simp
next
  case (Cons g fs)
  from Cons.prems have "\<not> is_fault (g w)" by simp
  with Cons show ?case by (cases "g w") (simp_all add: block_Cons)
qed

lemma OPEN_ELEMENT_FOR_SCOPE_no_fault:
  "(\<forall>f \<in> set body. \<forall>s. \<not> is_fault (f s)) \<Longrightarrow>
   is_fault (OPEN_ELEMENT_FOR_SCOPE name body w) = False"
  using block_no_fault [of body "OpenElement name w"]
  by (cases "block body (OpenElement name w)") (simp_all add: OPEN_ELEMENT_FOR_SCOPE_eq)

lemma block_single [simp]: "block [f] w = f w"
  by (cases "f w") (simp_all add: block_Cons)

lemma profile_metrics_iteration_release:
  "\<not> dcheck_is_on env \<Longrightarrow>
   profile_metrics_iteration env i v w =
     Done (effects (\<lambda>p. p) (\<lambda>s. s) (profileparam_element i v) (\<lambda>t. t) w)"
  by (cases v)
     (simp_all add: profile_metrics_iteration_def block_DCHECK block_NOTREACHED
       OPEN_ELEMENT_FOR_SCOPE_eq profileparam_element_def to_effects effects_id ok_def
       NOTREACHED_simps)

lemma profile_metrics_iteration_fault:
  "dcheck_is_on env \<Longrightarrow> \<not> recognized_type v \<Longrightarrow>
   profile_metrics_iteration env i v w = ProgrammingFault w"
  by (cases v; cases "i = ''id''")
     (simp_all add: profile_metrics_iteration_def block_DCHECK block_NOTREACHED
       NOTREACHED_simps)

lemma profile_metrics_loop_release:
  "\<not> dcheck_is_on env \<Longrightarrow>
   block (map (\<lambda>(i, v). profile_metrics_iteration env i v) profile_metrics) w =
     Done (effects (\<lambda>p. p) (\<lambda>s. s)
       (concat (map (\<lambda>(i, v). profileparam_element i v) profile_metrics)) (\<lambda>t. t) w)"
proof (induction profile_metrics arbitrary: w)
  case Nil
  show ?case by (simp add: effects_id)
next
  case (Cons e profile_metrics)
  then show ?case
    by (cases e) (simp add: block_Cons profile_metrics_iteration_release effects_effects)
qed

lemma WriteProfileMetrics_release:
  "\<not> dcheck_is_on env \<Longrightarrow>
   WriteProfileMetrics env profileidhash profile_metrics w =
     Done (mlog_update (xml_update (\<lambda>xs. xs @
       StartElement ''userprofile'' # Attribute ''profileidhash'' (StringAttr profileidhash) #
       concat (map (\<lambda>(i, v). profileparam_element i v) profile_metrics) @ [EndElement])) w)"
  by (simp add: WriteProfileMetrics_def OPEN_ELEMENT_FOR_SCOPE_eq profile_metrics_loop_release
      to_effects effects_legacy_only)

lemma WriteProfileMetrics_fault:
  assumes "dcheck_is_on env" and "(key, v) \<in> set profile_metrics" and "\<not> recognized_type v"
  shows "is_fault (WriteProfileMetrics env profileidhash profile_metrics w)"
proof -
  have "(\<lambda>(i, v). profile_metrics_iteration env i v) (key, v)
      \<in> set (map (\<lambda>(i, v). profile_metrics_iteration env i v) profile_metrics)"
    using assms(2) by (intro imageI [of _ "set profile_metrics", folded set_map])
  moreover have "is_fault ((\<lambda>(i, v). profile_metrics_iteration env i v) (key, v) s)" for s
    by (simp add: profile_metrics_iteration_fault [OF assms(1,3)])
  ultimately have "is_fault (block (map (\<lambda>(i, v). profile_metrics_iteration env i v)
      profile_metrics) s)" for s
    by (rule block_member_fault)
  then show ?thesis
    unfolding WriteProfileMetrics_def by (intro OPEN_ELEMENT_FOR_SCOPE_fault) simp
qed

lemma WriteAllProfilesMetrics_fault:
  assumes "dcheck_is_on env"
    and "(key_name, DictionaryValue profile_metrics) \<in> set all_profiles_metrics"
    and "take (length (kProfilePrefix env)) key_name = kProfilePrefix env"
    and "(key, v) \<in> set profile_metrics" and "\<not> recognized_type v"
  shows "is_fault (WriteAllProfilesMetrics env all_profiles_metrics w)"
  unfolding WriteAllProfilesMetrics_def Let_def
proof (rule block_member_fault)
  let ?f = "\<lambda>(key_name, v).
              if take (length (kProfilePrefix env)) key_name = kProfilePrefix env
              then (case v of
                      DictionaryValue profile \<Rightarrow>
                        WriteProfileMetrics env (drop (length (kProfilePrefix env)) key_name) profile
                    | _ \<Rightarrow> Done)
              else Done"
  show "?f (key_name, DictionaryValue profile_metrics) \<in> set (map ?f all_profiles_metrics)"
    using assms(2) by (intro imageI [of _ "set all_profiles_metrics", folded set_map])
  show "is_fault (?f (key_name, DictionaryValue profile_metrics) s)" for s
    by (simp add: assms(3) WriteProfileMetrics_fault [OF assms(1,4,5)])
qed

lemma OPEN_ELEMENT_FOR_SCOPE_member_fault:
  "f \<in> set body \<Longrightarrow> (\<And>s. is_fault (f s)) \<Longrightarrow> is_fault (OPEN_ELEMENT_FOR_SCOPE name body w)"
  by (intro OPEN_ELEMENT_FOR_SCOPE_fault block_member_fault)

lemma block_second_fault: "(\<And>s. is_fault (g s)) \<Longrightarrow> is_fault (block [f, g] w)"
  by (rule block_member_fault [of g]) simp_all

lemma RecordEnvironment_fault:
  assumes "dcheck_is_on env"
    and "(key_name, DictionaryValue profile_metrics) \<in> set all_profiles_metrics"
    and "take (length (kProfilePrefix env)) key_name = kProfilePrefix env"
    and "(key, v) \<in> set profile_metrics" and "\<not> recognized_type v"
  shows "is_fault (RecordEnvironment env plugin_list (Some all_profiles_metrics) w)"
  unfolding RecordEnvironment_def
  apply (rule block_second_fault)
  apply (rule OPEN_ELEMENT_FOR_SCOPE_member_fault
      [where f = "WriteAllProfilesMetrics env all_profiles_metrics"])
   apply simp
  apply (rule WriteAllProfilesMetrics_fault [OF assms])
  done

lemma WritePluginStabilityElements_release:
  "\<not> dcheck_is_on env \<Longrightarrow> is_fault (WritePluginStabilityElements env plugin_list w) = False"
proof (cases "GetList (local_state w) kStabilityPluginStats")
  case None
  then show ?thesis by (simp add: WritePluginStabilityElements_def)
next
  case (Some vs)
  assume "\<not> dcheck_is_on env"
  then have "dcheck_is_on env \<longrightarrow> (\<forall>v \<in> set vs. \<not> hits_NOTREACHED plugin_list v)"
    by simp
  from WritePluginStabilityElements_Done [OF Some this] show ?thesis by simp
qed

lemmas no_fault = block_no_fault OPEN_ELEMENT_FOR_SCOPE_no_fault
  WritePluginStabilityElements_release

lemma WriteInstallElement_no_fault:
  "is_fault (WriteInstallElement env w) = False"
  by (simp add: WriteInstallElement_def no_fault GetInstallDate_def GetPrefService_def)

lemma WritePluginList_release:
  "\<not> dcheck_is_on env \<Longrightarrow> is_fault (WritePluginList env plugin_list write_as_xml w) = False"
  by (simp add: WritePluginList_def no_fault Let_def split: option.splits)

lemma WriteStabilityElement_release:
  "\<not> dcheck_is_on env \<Longrightarrow> is_fault (WriteStabilityElement env plugin_list w) = False"
  by (simp add: WriteStabilityElement_def no_fault)

lemma WriteAllProfilesMetrics_release:
  "\<not> dcheck_is_on env \<Longrightarrow> is_fault (WriteAllProfilesMetrics env all_profiles_metrics w) = False"
  by (simp add: WriteAllProfilesMetrics_def no_fault Let_def WriteProfileMetrics_release
      split: prod.splits Value.splits)

lemma RecordEnvironmentProto_release:
  "\<not> dcheck_is_on env \<Longrightarrow> is_fault (RecordEnvironmentProto env plugin_list w) = False"
  by (simp add: RecordEnvironmentProto_def no_fault WritePluginList_release GetInstallDate_def
      GetPrefService_def split: prod.splits)

lemma RecordEnvironment_release:
  "\<not> dcheck_is_on env \<Longrightarrow>
   is_fault (RecordEnvironment env plugin_list profile_metrics w) = False"
  by (cases profile_metrics)
     (simp_all add: RecordEnvironment_def no_fault WriteInstallElement_no_fault
       WritePluginList_release WriteStabilityElement_release WriteAllProfilesMetrics_release
       RecordEnvironmentProto_release Let_def)

lemma RecordIncrementalStabilityElements_release:
  "\<not> dcheck_is_on env \<Longrightarrow>
   is_fault (RecordIncrementalStabilityElements env plugin_list w) = False"
  by (simp add: RecordIncrementalStabilityElements_def no_fault WriteInstallElement_no_fault)

lemma omnibox_release_example:
  "\<not> is_fault (RecordOmniboxOpenedURL release_environment example_autocomplete_log locked_world) \<and>
   num_events (mlog (state_of
     (RecordOmniboxOpenedURL release_environment example_autocomplete_log locked_world))) = 1 \<and>
   map oe_typed_length (omnibox_event (uma_proto (mlog (state_of
     (RecordOmniboxOpenedURL release_environment example_autocomplete_log locked_world))))) =
     [Some 8]"
  by (simp add: RecordOmniboxOpenedURL_def Let_def block_Cons ok_def OPEN_ELEMENT_FOR_SCOPE_eq
      block_append DCHECK_def release_environment_def example_environment_def
      example_autocomplete_log_def locked_world_def example_world_def new_MetricsLog_def
      OpenElement_def CloseElement_def WriteAttribute_def WriteIntAttribute_def
      WriteInt64Attribute_def emit_def WriteCommonEventAttributes_def omnibox_event_ptr_def
      suggestion_ptr_def at_back_def new_OmniboxEventProto_def AsOmniboxEventProviderType_def
      InMilliseconds_def trunc_div64_def)

lemma snapshot_GetList [simp]:
  "GetList (local_state (WriteRequiredStabilityAttributes w)) = GetList (local_state w)"
  "GetList (local_state (WriteRealtimeStabilityAttributes env w)) = GetList (local_state w)"
  "GetList (local_state (stability_snapshot env w)) = GetList (local_state w)"
  by (simp_all add: snapshot_simps WriteRequired_effects)


section \<open>The stability element\<close>










lemma OpenElement_simps [simp]:
  "legacy (OpenElement name w) = legacy w @ [StartElement name]"
  "local_state (OpenElement name w) = local_state w"
  "stability (OpenElement name w) = stability w"
  "last_updated_time (OpenElement name w) = last_updated_time w"
  by (simp_all add: OpenElement_def emit_effects)

lemma attribute_value_append_None:
  "attribute_value name ys = None \<Longrightarrow>
   attribute_value name (xs @ ys) = attribute_value name xs"
  by (simp add: attribute_value_append split: option.splits)

lemma attribute_value_append_Some:
  "attribute_value name xs = Some v \<Longrightarrow> attribute_value name (xs @ ys) = Some v"
  by (simp add: attribute_value_append)

lemma attribute_value_append_skip:
  "attribute_value name xs = None \<Longrightarrow>
   attribute_value name (xs @ ys) = attribute_value name ys"
  by (simp add: attribute_value_append)


section \<open>The uptime in seconds\<close>

lemma sint_trunc_div64:
  "sint (trunc_div64 a 1000000) =
     (if 0 \<le> sint a then sint a div 1000000 else - ((- sint a) div 1000000))"
proof -
  define x where "x = sint a"
  have r: "- (2 ^ 63) \<le> x" "x < 2 ^ 63"
    using sint_ge [of a] sint_lt [of a] by (simp_all add: x_def)
  define q where "q = sgn x * (\<bar>x\<bar> div 1000000)"
  have "\<bar>x\<bar> div 1000000 \<le> \<bar>x\<bar>"
    by (simp add: div_le_dividend zdiv_mono2 pos_imp_zdiv_nonneg_iff) 
  then have q: "- (2 ^ 63) \<le> q" "q < 2 ^ 63"
    using r by (auto simp: q_def sgn_if)
  have "sint (word_of_int q :: 64 word) = q"
    using q by (simp add: int_word_sint)
  then show ?thesis
    by (simp add: trunc_div64_def x_def [symmetric] q_def sgn_if)
qed

lemma InSeconds_positive: "0 <s InSeconds delta \<longleftrightarrow> 1000000 \<le> sint delta"
proof -
  have "\<not> - sint delta div 1000000 < 0" if "\<not> 0 \<le> sint delta"
    using that by (simp add: neg_imp_zdiv_neg_iff not_less pos_imp_zdiv_nonneg_iff)
  then show ?thesis
    by (simp add: word_sless_alt InSeconds_def sint_trunc_div64 pos_imp_zdiv_pos_iff)
qed

section \<open>The lookup of the inventory item\<close>

lemma find_plugin_info_first:
  "wpi_name plugin_info = plugin_name \<Longrightarrow>
   \<forall>item \<in> set earlier. wpi_name item \<noteq> plugin_name \<Longrightarrow>
   find_plugin_info (earlier @ plugin_info # later) plugin_name = Some plugin_info"
  by (induction earlier) simp_all

section \<open>The stability snapshot\<close>

text \<open>
  C2, the zero-suppression law. In a stability snapshot on a report whose structured
  stability record is still unset, \<open>launchcount\<close> and \<open>crashcount\<close> are written to
  both encodings with the value of their counter, zero included. Each of the five
  realtime counters is written, to both encodings, exactly when it is not zero. The three
  platform-conditional counters are written (to the structured record, on Chrome OS)
  exactly when they are not zero.
\<close>

theorem zero_suppression:
  fixes w :: world and env :: environment
  assumes "stability w = new_Stability"
  defines "w' \<equiv> stability_snapshot env w"
    and "c \<equiv> GetInteger (local_state w)"
  shows
    "attribute_value ''launchcount'' (appended w w') = Some (IntAttr (c kStabilityLaunchCount)) \<and>
     st_launch_count (stability w') = Some (c kStabilityLaunchCount) \<and>
     attribute_value ''crashcount'' (appended w w') = Some (IntAttr (c kStabilityCrashCount)) \<and>
     st_crash_count (stability w') = Some (c kStabilityCrashCount) \<and>
     attribute_value ''pageloadcount'' (appended w w') =
       map_option IntAttr (nonzero (c kStabilityPageLoadCount)) \<and>
     st_page_load_count (stability w') = nonzero (c kStabilityPageLoadCount) \<and>
     attribute_value ''renderercrashcount'' (appended w w') =
       map_option IntAttr (nonzero (c kStabilityRendererCrashCount)) \<and>
     st_renderer_crash_count (stability w') = nonzero (c kStabilityRendererCrashCount) \<and>
     attribute_value ''extensionrenderercrashcount'' (appended w w') =
       map_option IntAttr (nonzero (c kStabilityExtensionRendererCrashCount)) \<and>
     st_extension_renderer_crash_count (stability w') =
       nonzero (c kStabilityExtensionRendererCrashCount) \<and>
     attribute_value ''rendererhangcount'' (appended w w') =
       map_option IntAttr (nonzero (c kStabilityRendererHangCount)) \<and>
     st_renderer_hang_count (stability w') = nonzero (c kStabilityRendererHangCount) \<and>
     attribute_value ''childprocesscrashcount'' (appended w w') =
       map_option IntAttr (nonzero (c kStabilityChildProcessCrashCount)) \<and>
     st_child_process_crash_count (stability w') =
       nonzero (c kStabilityChildProcessCrashCount) \<and>
     st_other_user_crash_count (stability w') =
       (if os_chromeos env then nonzero (c kStabilityOtherUserCrashCount) else None) \<and>
     st_kernel_crash_count (stability w') =
       (if os_chromeos env then nonzero (c kStabilityKernelCrashCount) else None) \<and>
     st_unclean_system_shutdown_count (stability w') =
       (if os_chromeos env then nonzero (c kStabilitySystemUncleanShutdownCount) else None)"
  unfolding w'_def c_def
  by (simp add: snapshot_attribute_values snapshot_fields assms(1) nonzero_def)

theorem zero_suppression_witness:
  "stability example_world = new_Stability \<and>
   attribute_value ''launchcount''
     (appended example_world (stability_snapshot example_environment example_world)) =
     Some (IntAttr 3) \<and>
   attribute_value ''crashcount''
     (appended example_world (stability_snapshot example_environment example_world)) =
     Some (IntAttr 0) \<and>
   st_crash_count (stability (stability_snapshot example_environment example_world)) = Some 0 \<and>
   attribute_value ''pageloadcount''
     (appended example_world (stability_snapshot example_environment example_world)) =
     Some (IntAttr 5) \<and>
   attribute_value ''renderercrashcount''
     (appended example_world (stability_snapshot example_environment example_world)) = None \<and>
   st_renderer_crash_count (stability (stability_snapshot example_environment example_world)) =
     None"
  using zero_suppression [of example_world example_environment]
  by (simp add: nonzero_def)

text \<open>
  C3, read-and-reset with no double count. For every counter \<open>k\<close> that a stability
  snapshot consumes, the value the report shows (an absent realtime counter counts as
  zero) is the value accumulated at snapshot time, and the store holds zero for \<open>k\<close>
  afterwards. Hence a next report, taken after the increments \<open>I2\<close>, shows exactly the
  number of increments of \<open>k\<close> in \<open>I2\<close> (zero for an immediate second read), and a
  report taken after the increments \<open>I1\<close> of a zeroed counter shows exactly those.
\<close>

theorem read_and_reset_no_double_count:
  fixes w :: world and env :: environment and k :: pref_name
  assumes fresh: "stability w = new_Stability" and k: "k \<in> set (snapshot_counters env)"
  defines "wA \<equiv> stability_snapshot env w"
  shows "reported (counter_field k (stability wA)) = GetInteger (local_state w) k \<and>
         GetInteger (local_state wA) k = 0 \<and>
         (\<forall>envB I2. os_chromeos envB = os_chromeos env \<longrightarrow>
            reported (counter_field k (stability (stability_snapshot envB
              (pref_update (increments I2) (next_report wA))))) = of_nat (count_list I2 k)) \<and>
         (\<forall>pref0 I1. GetInteger pref0 k = 0 \<and> local_state w = increments I1 pref0 \<longrightarrow>
            reported (counter_field k (stability wA)) = of_nat (count_list I1 k))"
proof (intro conjI allI impI)
  show A: "reported (counter_field k (stability wA)) = GetInteger (local_state w) k"
    unfolding wA_def by (rule snapshot_reports_counter [OF fresh k])
  show zero: "GetInteger (local_state wA) k = 0"
    unfolding wA_def by (rule snapshot_resets_counter [OF k])
  show "reported (counter_field k (stability (stability_snapshot envB
          (pref_update (increments I2) (next_report wA))))) = of_nat (count_list I2 k)"
    if "os_chromeos envB = os_chromeos env" for envB I2
  proof -
    have "k \<in> set (snapshot_counters envB)"
      using k that by (simp add: snapshot_counters_def)
    then have "reported (counter_field k (stability (stability_snapshot envB
          (pref_update (increments I2) (next_report wA))))) =
        GetInteger (local_state (pref_update (increments I2) (next_report wA))) k"
      by (intro snapshot_reports_counter) simp_all
    then show ?thesis by (simp add: increments_GetInteger zero)
  qed
  show "reported (counter_field k (stability wA)) = of_nat (count_list I1 k)"
    if "GetInteger pref0 k = 0 \<and> local_state w = increments I1 pref0" for pref0 I1
    using that A by (simp add: increments_GetInteger)
qed

theorem read_and_reset_no_double_count_witness:
  "stability example_world = new_Stability \<and>
   kStabilityPageLoadCount \<in> set (snapshot_counters example_environment) \<and>
   reported (st_page_load_count
     (stability (stability_snapshot example_environment example_world))) = 5 \<and>
   GetInteger (local_state (stability_snapshot example_environment example_world))
     kStabilityPageLoadCount = 0 \<and>
   reported (st_page_load_count (stability (stability_snapshot example_environment
     (pref_update (increments [kStabilityPageLoadCount, kStabilityLaunchCount,
                               kStabilityPageLoadCount])
        (next_report (stability_snapshot example_environment example_world)))))) = 2"
proof -
  have k: "kStabilityPageLoadCount \<in> set (snapshot_counters example_environment)"
    by (simp add: snapshot_counters_def)
  have fresh: "stability example_world = new_Stability"
    by simp
  from read_and_reset_no_double_count [OF fresh k] show ?thesis
    using k by simp
qed

section \<open>The incremental uptime\<close>

text \<open>
  C9, the side effect of the incremental-uptime computation. With \<open>micros\<close> the
  microseconds between the checkpoint and \<open>now\<close> (zero on the first call, whose
  checkpoint is initialised to \<open>now\<close>), the call returns \<open>micros\<close> divided by
  1000000, truncated toward zero; so the first call returns zero. Every call moves the
  checkpoint to \<open>now\<close>. The uninstall-metrics uptime preference grows by the returned
  seconds exactly when they are positive, that is when at least 1000000 microseconds have
  elapsed, and is unchanged otherwise; no other preference and nothing of the report is
  modified.
\<close>

theorem incremental_uptime_side_effect:
  fixes now :: int64 and w :: world
  defines "d \<equiv> fst (GetIncrementalUptime now w)"
    and "w' \<equiv> snd (GetIncrementalUptime now w)"
    and "micros \<equiv>
      (case last_updated_time w of None \<Rightarrow> 0 | Some checkpoint \<Rightarrow> sint (now - checkpoint))"
  shows "sint d =
           (if 0 \<le> micros then micros div 1000000 else - ((- micros) div 1000000)) \<and>
         (last_updated_time w = None \<longrightarrow> d = 0) \<and>
         last_updated_time w' = Some now \<and>
         GetInt64 (local_state w') kUninstallMetricsUptimeSec =
           (if 1000000 \<le> micros
            then GetInt64 (local_state w) kUninstallMetricsUptimeSec + d
            else GetInt64 (local_state w) kUninstallMetricsUptimeSec) \<and>
         (\<forall>path. path \<noteq> kUninstallMetricsUptimeSec \<longrightarrow>
            GetInt64 (local_state w') path = GetInt64 (local_state w) path) \<and>
         GetInteger (local_state w') = GetInteger (local_state w) \<and>
         GetString (local_state w') = GetString (local_state w) \<and>
         GetList (local_state w') = GetList (local_state w) \<and>
         mlog w' = mlog w"
proof -
  define delta where
    "delta = now - (case last_updated_time w of None \<Rightarrow> now | Some t \<Rightarrow> t)"
  have micros: "micros = sint delta"
    by (simp add: micros_def delta_def split: option.splits)
  have run: "GetIncrementalUptime now w =
      (if 1000000 \<le> micros
       then (InSeconds delta,
             pref_update (\<lambda>pref. SetInt64 kUninstallMetricsUptimeSec
               (GetInt64 pref kUninstallMetricsUptimeSec + InSeconds delta) pref)
               (w\<lparr>last_updated_time := Some now\<rparr>))
       else (InSeconds delta, w\<lparr>last_updated_time := Some now\<rparr>))"
    by (simp add: GetIncrementalUptime_def Let_def delta_def [symmetric] InSeconds_positive
        micros)
  have d: "d = InSeconds delta"
    by (simp add: d_def run)
  have first: "d = 0" if "last_updated_time w = None"
    by (simp add: d delta_def that InSeconds_def trunc_div64_def)
  show ?thesis
    unfolding w'_def
    by (simp add: first run d [symmetric])
       (simp add: d InSeconds_def sint_trunc_div64 micros)
qed

theorem incremental_uptime_side_effect_witness:
  "last_updated_time example_world = None \<and>
   sint (fst (GetIncrementalUptime 90000000 example_world)) = 0 \<and>
   GetInt64 (local_state (snd (GetIncrementalUptime 90000000 example_world)))
     kUninstallMetricsUptimeSec = 0 \<and>
   sint (fst (GetIncrementalUptime 90999999
     (snd (GetIncrementalUptime 90000000 example_world)))) = 0 \<and>
   GetInt64 (local_state (snd (GetIncrementalUptime 90999999
     (snd (GetIncrementalUptime 90000000 example_world))))) kUninstallMetricsUptimeSec = 0 \<and>
   sint (fst (GetIncrementalUptime 91000000
     (snd (GetIncrementalUptime 90999999
       (snd (GetIncrementalUptime 90000000 example_world)))))) = 0 \<and>
   sint (fst (GetIncrementalUptime 95500000
     (snd (GetIncrementalUptime 90000000 example_world)))) = 5"
proof -
  let ?w1 = "snd (GetIncrementalUptime 90000000 example_world)"
  let ?w2 = "snd (GetIncrementalUptime 90999999 ?w1)"
  note first = incremental_uptime_side_effect [of 90000000 example_world]
  from first have t1: "last_updated_time ?w1 = Some 90000000"
    and p1: "GetInt64 (local_state ?w1) kUninstallMetricsUptimeSec = 0"
    by simp_all
  note second = incremental_uptime_side_effect [of 90999999 ?w1]
  from second have t2: "last_updated_time ?w2 = Some 90999999"
    by simp
  note third = incremental_uptime_side_effect [of 91000000 ?w2]
  note later = incremental_uptime_side_effect [of 95500000 ?w1]
  have s0: "sint (fst (GetIncrementalUptime 90000000 example_world)) = 0"
    using first by simp
  have s1: "sint (fst (GetIncrementalUptime 90999999 ?w1)) = 0"
    and p2: "GetInt64 (local_state ?w2) kUninstallMetricsUptimeSec = 0"
    using second by (simp_all add: t1 p1)
  have s2: "sint (fst (GetIncrementalUptime 91000000 ?w2)) = 0"
    using third by (simp add: t2)
  have s3: "sint (fst (GetIncrementalUptime 95500000 ?w1)) = 5"
    using later by (simp add: t1)
  show ?thesis
    by (simp add: s0 s1 s2 s3 p1 p2)
qed

section \<open>The plugin correlation pass\<close>

text \<open>
  C10, the absent plugin list. When the persisted plugin-stats list reads as NULL the
  pass returns at once: the state is unchanged (no output in either encoding, no
  \<open>plugins\<close> element, the preference not cleared) and no fault is raised.
\<close>

theorem absent_plugin_stats_returns_immediately:
  "GetList (local_state w) kStabilityPluginStats = None \<Longrightarrow>
   WritePluginStabilityElements env plugin_list w = Done w"
  by (simp add: WritePluginStabilityElements_def)

theorem absent_plugin_stats_returns_immediately_witness:
  "GetList (local_state example_world) kStabilityPluginStats = None \<and>
   WritePluginStabilityElements example_environment [Foo] example_world = Done example_world"
  using absent_plugin_stats_returns_immediately [of example_world example_environment "[Foo]"]
  by simp

text \<open>
  C4, the unmatched usage record. The claim fails as stated: the code keeps no
  data-quality fault count, it writes the record's legacy \<open>pluginstability\<close> element
  before it looks for the inventory item, and what follows the failed lookup is the
  assertion \<open>NOTREACHED\<close>. With assertions compiled out the pass on the record
  \<open>Bar\<close> changes nothing but the legacy stream and the cleared list; with assertions
  compiled in it stops at \<open>Bar\<close> and the record \<open>Foo\<close> after it is not processed.
\<close>

theorem unmatched_record_counterexample:
  "WritePluginStabilityElements release_environment [Foo]
     (plugin_world [PluginUsageRecord ''Bar'' 1 1 1]) =
   Done ((plugin_world [])\<lparr>mlog := new_MetricsLog\<lparr>xml :=
     [StartElement ''plugins'', StartElement ''pluginstability'',
      Attribute ''filename'' (StringAttr ''base64(Bar)''),
      Attribute ''launchcount'' (IntAttr 1), Attribute ''instancecount'' (IntAttr 1),
      Attribute ''crashcount'' (IntAttr 1), EndElement, EndElement]\<rparr>\<rparr>) \<and>
   WritePluginStabilityElements example_environment [Foo]
     (plugin_world [PluginUsageRecord ''Bar'' 1 1 1, PluginUsageRecord ''Foo'' 4 6 2]) =
   ProgrammingFault
     ((plugin_world [PluginUsageRecord ''Bar'' 1 1 1, PluginUsageRecord ''Foo'' 4 6 2])
       \<lparr>mlog := new_MetricsLog\<lparr>xml :=
         [StartElement ''plugins'', StartElement ''pluginstability'',
          Attribute ''filename'' (StringAttr ''base64(Bar)''),
          Attribute ''launchcount'' (IntAttr 1), Attribute ''instancecount'' (IntAttr 1),
          Attribute ''crashcount'' (IntAttr 1)]\<rparr>\<rparr>)"
proof
  have "dcheck_is_on release_environment \<longrightarrow>
      (\<forall>v \<in> set [PluginUsageRecord ''Bar'' 1 1 1]. \<not> hits_NOTREACHED [Foo] v)"
    by simp
  from WritePluginStabilityElements_Done [OF plugin_world_simps(1) this]
  show "WritePluginStabilityElements release_environment [Foo]
     (plugin_world [PluginUsageRecord ''Bar'' 1 1 1]) =
   Done ((plugin_world [])\<lparr>mlog := new_MetricsLog\<lparr>xml :=
     [StartElement ''plugins'', StartElement ''pluginstability'',
      Attribute ''filename'' (StringAttr ''base64(Bar)''),
      Attribute ''launchcount'' (IntAttr 1), Attribute ''instancecount'' (IntAttr 1),
      Attribute ''crashcount'' (IntAttr 1), EndElement, EndElement]\<rparr>\<rparr>)"
    by (simp add: effects_def mutable_stability_def mutable_system_profile_def pref_update_def
        plugin_world_def example_world_def example_prefs_def new_MetricsLog_def ClearPref_def)
next
  have "\<exists>v \<in> set [PluginUsageRecord ''Bar'' 1 1 1, PluginUsageRecord ''Foo'' 4 6 2].
      hits_NOTREACHED [Foo] v"
    by simp
  from WritePluginStabilityElements_fault
    [OF plugin_world_simps(1) example_environment_simps(1) this]
  show "WritePluginStabilityElements example_environment [Foo]
     (plugin_world [PluginUsageRecord ''Bar'' 1 1 1, PluginUsageRecord ''Foo'' 4 6 2]) =
   ProgrammingFault
     ((plugin_world [PluginUsageRecord ''Bar'' 1 1 1, PluginUsageRecord ''Foo'' 4 6 2])
       \<lparr>mlog := new_MetricsLog\<lparr>xml :=
         [StartElement ''plugins'', StartElement ''pluginstability'',
          Attribute ''filename'' (StringAttr ''base64(Bar)''),
          Attribute ''launchcount'' (IntAttr 1), Attribute ''instancecount'' (IntAttr 1),
          Attribute ''crashcount'' (IntAttr 1)]\<rparr>\<rparr>)"
    by (simp add: effects_def mutable_stability_def mutable_system_profile_def pref_update_def
        plugin_world_def example_world_def example_prefs_def new_MetricsLog_def)
qed

text \<open>
  C4 as amended. For a persisted usage record whose name no inventory item has, the
  iteration writes the legacy element of the record and no structured entry, and reaches
  \<open>NOTREACHED\<close>; nothing counts the fault. With assertions compiled in the pass stops
  at the first entry that reaches \<open>NOTREACHED\<close>, with a \<open>ProgrammingFault\<close>: the
  report then holds the \<open>plugins\<close> start, the legacy elements and the structured
  entries of the entries before that one, and the unclosed legacy element of that one;
  nothing of a later entry is written, and the preferences are untouched (the list is not
  cleared). In particular, when every entry before the unmatched record is matched, the
  pass stops at this record. With assertions compiled out the pass goes on: every
  record's legacy element is written, the structured entries are exactly those of the
  matched records, and the list is cleared.
\<close>

theorem unmatched_record_dropped:
  fixes env :: environment and plugin_list :: "WebPluginInfo list" and w :: world
  assumes unmatched:
      "find_plugin_info plugin_list (Dict_GetString plugin_dict kStabilityPluginName []) = None"
    and present: "GetList (local_state w) kStabilityPluginStats = Some plugin_stats_list"
    and member: "DictionaryValue plugin_dict \<in> set plugin_stats_list"
  defines "r \<equiv> WritePluginStabilityElements env plugin_list w"
  shows
    "plugin_stats_iteration env plugin_list (DictionaryValue plugin_dict) w =
       (if dcheck_is_on env
        then ProgrammingFault (mlog_update (xml_update (\<lambda>xs. xs @
               pluginstability_attributes env plugin_dict)) w)
        else Done (mlog_update (xml_update (\<lambda>xs. xs @
               pluginstability_attributes env plugin_dict @ [EndElement])) w)) \<and>
     structured_entries env plugin_list (DictionaryValue plugin_dict) = [] \<and>
     (dcheck_is_on env \<longrightarrow>
        is_fault r \<and> local_state (state_of r) = local_state w \<and>
        appended w (state_of r) =
          StartElement ''plugins'' #
          concat (map (legacy_element env)
            (takeWhile (\<lambda>v. \<not> hits_NOTREACHED plugin_list v) plugin_stats_list)) @
          butlast (legacy_element env
            (hd (dropWhile (\<lambda>v. \<not> hits_NOTREACHED plugin_list v) plugin_stats_list))) \<and>
        st_plugin_stability (stability (state_of r)) =
          st_plugin_stability (stability w) @
          concat (map (structured_entries env plugin_list)
            (takeWhile (\<lambda>v. \<not> hits_NOTREACHED plugin_list v) plugin_stats_list)) \<and>
        (\<forall>before after.
           plugin_stats_list = before @ DictionaryValue plugin_dict # after \<and>
           (\<forall>v \<in> set before. \<not> hits_NOTREACHED plugin_list v) \<longrightarrow>
           appended w (state_of r) =
             StartElement ''plugins'' # concat (map (legacy_element env) before) @
             pluginstability_attributes env plugin_dict \<and>
           st_plugin_stability (stability (state_of r)) =
             st_plugin_stability (stability w) @
             concat (map (structured_entries env plugin_list) before))) \<and>
     (\<not> dcheck_is_on env \<longrightarrow>
        \<not> is_fault r \<and>
        appended w (state_of r) =
          StartElement ''plugins'' #
          concat (map (legacy_element env) plugin_stats_list) @ [EndElement] \<and>
        st_plugin_stability (stability (state_of r)) =
          st_plugin_stability (stability w) @
          concat (map (structured_entries env plugin_list) plugin_stats_list) \<and>
        GetList (local_state (state_of r)) kStabilityPluginStats = Some [])"
proof (intro conjI impI allI)
  have hits: "hits_NOTREACHED plugin_list (DictionaryValue plugin_dict)"
    using unmatched by (simp add: hits_NOTREACHED_def)
  show "plugin_stats_iteration env plugin_list (DictionaryValue plugin_dict) w =
       (if dcheck_is_on env
        then ProgrammingFault (mlog_update (xml_update (\<lambda>xs. xs @
               pluginstability_attributes env plugin_dict)) w)
        else Done (mlog_update (xml_update (\<lambda>xs. xs @
               pluginstability_attributes env plugin_dict @ [EndElement])) w))"
  proof (cases "dcheck_is_on env")
    case True
    from plugin_stats_iteration_fault [OF True hits] show ?thesis
      by (simp add: True effects_legacy_only legacy_element_def)
  next
    case False
    then have "dcheck_is_on env \<longrightarrow>
        \<not> hits_NOTREACHED plugin_list (DictionaryValue plugin_dict)"
      by simp
    from plugin_stats_iteration_Done [OF this] show ?thesis
      by (simp add: False effects_report_only legacy_element_def structured_entries_def
          unmatched mutable_stability_def mutable_system_profile_def)
  qed
  show "structured_entries env plugin_list (DictionaryValue plugin_dict) = []"
    by (simp add: structured_entries_def unmatched)
  have ex: "\<exists>v \<in> set plugin_stats_list. hits_NOTREACHED plugin_list v"
    using member hits by blast
  show "is_fault r" if "dcheck_is_on env"
    unfolding r_def WritePluginStabilityElements_fault [OF present that ex] by simp
  show "local_state (state_of r) = local_state w" if "dcheck_is_on env"
    unfolding r_def WritePluginStabilityElements_fault [OF present that ex] by simp
  show "appended w (state_of r) =
          StartElement ''plugins'' #
          concat (map (legacy_element env)
            (takeWhile (\<lambda>v. \<not> hits_NOTREACHED plugin_list v) plugin_stats_list)) @
          butlast (legacy_element env
            (hd (dropWhile (\<lambda>v. \<not> hits_NOTREACHED plugin_list v) plugin_stats_list)))"
    if "dcheck_is_on env"
    unfolding r_def WritePluginStabilityElements_fault [OF present that ex] by simp
  show "st_plugin_stability (stability (state_of r)) =
          st_plugin_stability (stability w) @
          concat (map (structured_entries env plugin_list)
            (takeWhile (\<lambda>v. \<not> hits_NOTREACHED plugin_list v) plugin_stats_list))"
    if "dcheck_is_on env"
    unfolding r_def WritePluginStabilityElements_fault [OF present that ex] by simp
  have first: "takeWhile (\<lambda>v. \<not> hits_NOTREACHED plugin_list v) plugin_stats_list = before \<and>
      butlast (legacy_element env
        (hd (dropWhile (\<lambda>v. \<not> hits_NOTREACHED plugin_list v) plugin_stats_list))) =
      pluginstability_attributes env plugin_dict"
    if "plugin_stats_list = before @ DictionaryValue plugin_dict # after \<and>
        (\<forall>v \<in> set before. \<not> hits_NOTREACHED plugin_list v)"
    for before after
    using that hits by (simp add: takeWhile_append2 dropWhile_append2 legacy_element_def)
  show "appended w (state_of r) =
          StartElement ''plugins'' # concat (map (legacy_element env) before) @
          pluginstability_attributes env plugin_dict"
    if "dcheck_is_on env"
      and "plugin_stats_list = before @ DictionaryValue plugin_dict # after \<and>
        (\<forall>v \<in> set before. \<not> hits_NOTREACHED plugin_list v)"
    for before after
    unfolding r_def WritePluginStabilityElements_fault [OF present that(1) ex]
    by (simp add: first [OF that(2)])
  show "st_plugin_stability (stability (state_of r)) =
          st_plugin_stability (stability w) @
          concat (map (structured_entries env plugin_list) before)"
    if "dcheck_is_on env"
      and "plugin_stats_list = before @ DictionaryValue plugin_dict # after \<and>
        (\<forall>v \<in> set before. \<not> hits_NOTREACHED plugin_list v)"
    for before after
    unfolding r_def WritePluginStabilityElements_fault [OF present that(1) ex]
    by (simp add: first [OF that(2)])
  have rel: "dcheck_is_on env \<longrightarrow> (\<forall>v \<in> set plugin_stats_list. \<not> hits_NOTREACHED plugin_list v)"
    if "\<not> dcheck_is_on env"
    using that by simp
  show "\<not> is_fault r" if "\<not> dcheck_is_on env"
    unfolding r_def WritePluginStabilityElements_Done [OF present rel [OF that]] by simp
  show "appended w (state_of r) =
          StartElement ''plugins'' #
          concat (map (legacy_element env) plugin_stats_list) @ [EndElement]"
    if "\<not> dcheck_is_on env"
    unfolding r_def WritePluginStabilityElements_Done [OF present rel [OF that]] by simp
  show "st_plugin_stability (stability (state_of r)) =
          st_plugin_stability (stability w) @
          concat (map (structured_entries env plugin_list) plugin_stats_list)"
    if "\<not> dcheck_is_on env"
    unfolding r_def WritePluginStabilityElements_Done [OF present rel [OF that]] by simp
  show "GetList (local_state (state_of r)) kStabilityPluginStats = Some []"
    if "\<not> dcheck_is_on env"
    unfolding r_def WritePluginStabilityElements_Done [OF present rel [OF that]] by simp
qed

theorem unmatched_record_dropped_witness:
  "find_plugin_info [Foo]
     (Dict_GetString
        [(kStabilityPluginName, StringValue ''Bar''),
         (kStabilityPluginLaunches, IntegerValue 1),
         (kStabilityPluginInstances, IntegerValue 1),
         (kStabilityPluginCrashes, IntegerValue 1)] kStabilityPluginName []) = None \<and>
   GetList (local_state
     (plugin_world [PluginUsageRecord ''Bar'' 1 1 1, PluginUsageRecord ''Foo'' 4 6 2]))
     kStabilityPluginStats =
     Some [PluginUsageRecord ''Bar'' 1 1 1, PluginUsageRecord ''Foo'' 4 6 2] \<and>
   DictionaryValue
     [(kStabilityPluginName, StringValue ''Bar''),
      (kStabilityPluginLaunches, IntegerValue 1),
      (kStabilityPluginInstances, IntegerValue 1),
      (kStabilityPluginCrashes, IntegerValue 1)]
     \<in> set [PluginUsageRecord ''Bar'' 1 1 1, PluginUsageRecord ''Foo'' 4 6 2] \<and>
   \<not> is_fault (WritePluginStabilityElements release_environment [Foo]
     (plugin_world [PluginUsageRecord ''Bar'' 1 1 1, PluginUsageRecord ''Foo'' 4 6 2])) \<and>
   map ps_crash_count (st_plugin_stability (stability (state_of
     (WritePluginStabilityElements release_environment [Foo]
       (plugin_world [PluginUsageRecord ''Bar'' 1 1 1, PluginUsageRecord ''Foo'' 4 6 2]))))) =
     [Some 2] \<and>
   GetList (local_state (state_of
     (WritePluginStabilityElements release_environment [Foo]
       (plugin_world [PluginUsageRecord ''Bar'' 1 1 1, PluginUsageRecord ''Foo'' 4 6 2]))))
     kStabilityPluginStats = Some [] \<and>
   is_fault (WritePluginStabilityElements example_environment [Foo]
     (plugin_world [PluginUsageRecord ''Bar'' 1 1 1, PluginUsageRecord ''Foo'' 4 6 2])) \<and>
   legacy (state_of
     (WritePluginStabilityElements example_environment [Foo]
       (plugin_world [PluginUsageRecord ''Bar'' 1 1 1, PluginUsageRecord ''Foo'' 4 6 2]))) =
     [StartElement ''plugins'', StartElement ''pluginstability'',
      Attribute ''filename'' (StringAttr ''base64(Bar)''),
      Attribute ''launchcount'' (IntAttr 1), Attribute ''instancecount'' (IntAttr 1),
      Attribute ''crashcount'' (IntAttr 1)] \<and>
   st_plugin_stability (stability (state_of
     (WritePluginStabilityElements example_environment [Foo]
       (plugin_world [PluginUsageRecord ''Bar'' 1 1 1, PluginUsageRecord ''Foo'' 4 6 2])))) =
     [] \<and>
   GetList (local_state (state_of
     (WritePluginStabilityElements example_environment [Foo]
       (plugin_world [PluginUsageRecord ''Bar'' 1 1 1, PluginUsageRecord ''Foo'' 4 6 2]))))
     kStabilityPluginStats =
     Some [PluginUsageRecord ''Bar'' 1 1 1, PluginUsageRecord ''Foo'' 4 6 2]"
proof -
  let ?w = "plugin_world [PluginUsageRecord ''Bar'' 1 1 1, PluginUsageRecord ''Foo'' 4 6 2]"
  have unmatched: "find_plugin_info [Foo]
     (Dict_GetString
        [(kStabilityPluginName, StringValue ''Bar''),
         (kStabilityPluginLaunches, IntegerValue 1),
         (kStabilityPluginInstances, IntegerValue 1),
         (kStabilityPluginCrashes, IntegerValue 1)] kStabilityPluginName []) = None"
    by (simp add: Dict_GetString_def kStabilityPluginName_def Foo_def)
  have member: "DictionaryValue
     [(kStabilityPluginName, StringValue ''Bar''),
      (kStabilityPluginLaunches, IntegerValue 1),
      (kStabilityPluginInstances, IntegerValue 1),
      (kStabilityPluginCrashes, IntegerValue 1)]
     \<in> set [PluginUsageRecord ''Bar'' 1 1 1, PluginUsageRecord ''Foo'' 4 6 2]"
    by (simp add: PluginUsageRecord_def)
  note release = unmatched_record_dropped [OF unmatched plugin_world_simps(1) member,
      of release_environment]
  note debug = unmatched_record_dropped [OF unmatched plugin_world_simps(1) member,
      of example_environment]
  have released: "\<not> is_fault (WritePluginStabilityElements release_environment [Foo] ?w) \<and>
      map ps_crash_count (st_plugin_stability (stability (state_of
        (WritePluginStabilityElements release_environment [Foo] ?w)))) = [Some 2] \<and>
      GetList (local_state (state_of
        (WritePluginStabilityElements release_environment [Foo] ?w)))
        kStabilityPluginStats = Some []"
    using release by simp
  from debug have "is_fault (WritePluginStabilityElements example_environment [Foo] ?w) \<and>
      local_state (state_of (WritePluginStabilityElements example_environment [Foo] ?w)) =
        local_state ?w \<and>
      appended ?w (state_of (WritePluginStabilityElements example_environment [Foo] ?w)) =
          StartElement ''plugins'' #
          concat (map (legacy_element example_environment)
            (takeWhile (\<lambda>v. \<not> hits_NOTREACHED [Foo] v)
              [PluginUsageRecord ''Bar'' 1 1 1, PluginUsageRecord ''Foo'' 4 6 2])) @
          butlast (legacy_element example_environment
            (hd (dropWhile (\<lambda>v. \<not> hits_NOTREACHED [Foo] v)
              [PluginUsageRecord ''Bar'' 1 1 1, PluginUsageRecord ''Foo'' 4 6 2]))) \<and>
      st_plugin_stability (stability (state_of
          (WritePluginStabilityElements example_environment [Foo] ?w))) =
          st_plugin_stability (stability ?w) @
          concat (map (structured_entries example_environment [Foo])
            (takeWhile (\<lambda>v. \<not> hits_NOTREACHED [Foo] v)
              [PluginUsageRecord ''Bar'' 1 1 1, PluginUsageRecord ''Foo'' 4 6 2]))"
    by (simp only: example_environment_simps simp_thms)
  then have debugged: "is_fault (WritePluginStabilityElements example_environment [Foo] ?w) \<and>
      legacy (state_of (WritePluginStabilityElements example_environment [Foo] ?w)) =
        [StartElement ''plugins'', StartElement ''pluginstability'',
         Attribute ''filename'' (StringAttr ''base64(Bar)''),
         Attribute ''launchcount'' (IntAttr 1), Attribute ''instancecount'' (IntAttr 1),
         Attribute ''crashcount'' (IntAttr 1)] \<and>
      st_plugin_stability (stability (state_of
        (WritePluginStabilityElements example_environment [Foo] ?w))) = [] \<and>
      GetList (local_state (state_of
        (WritePluginStabilityElements example_environment [Foo] ?w))) kStabilityPluginStats =
      Some [PluginUsageRecord ''Bar'' 1 1 1, PluginUsageRecord ''Foo'' 4 6 2]"
    by (simp add: appended_def)
  from released debugged show ?thesis
    using unmatched member by simp
qed

text \<open>
  C5, the matched usage record. The claim fails as stated: the structured entry, which
  carries the counts and the version, carries the raw plugin name (\<open>SetPluginInfo\<close>
  copies it); the anonymized token is written only to the \<open>filename\<close> attribute of the
  legacy element, which has no version.
\<close>

theorem matched_record_counterexample:
  "\<not> is_fault (WritePluginStabilityElements example_environment [Foo]
      (plugin_world [PluginUsageRecord ''Foo'' 4 6 2])) \<and>
   st_plugin_stability (stability (state_of
     (WritePluginStabilityElements example_environment [Foo]
        (plugin_world [PluginUsageRecord ''Foo'' 4 6 2])))) =
     [\<lparr>ps_plugin =
         \<lparr>pl_name = Some ''Foo'', pl_filename = Some ''libfoo.so'', pl_version = Some ''1.0'',
          pl_is_disabled = None\<rparr>,
       ps_launch_count = Some 4, ps_instance_count = Some 6, ps_crash_count = Some 2\<rparr>] \<and>
   legacy (state_of
     (WritePluginStabilityElements example_environment [Foo]
        (plugin_world [PluginUsageRecord ''Foo'' 4 6 2]))) =
     [StartElement ''plugins'', StartElement ''pluginstability'',
      Attribute ''filename'' (StringAttr ''base64(Foo)''),
      Attribute ''launchcount'' (IntAttr 4), Attribute ''instancecount'' (IntAttr 6),
      Attribute ''crashcount'' (IntAttr 2), EndElement, EndElement]"
proof -
  have "dcheck_is_on example_environment \<longrightarrow>
      (\<forall>v \<in> set [PluginUsageRecord ''Foo'' 4 6 2]. \<not> hits_NOTREACHED [Foo] v)"
    by simp
  from WritePluginStabilityElements_Done [OF plugin_world_simps(1) this]
  show ?thesis by simp
qed

text \<open>
  C5 as amended. Take a persisted usage record whose name is the name of an inventory
  item, and let \<open>plugin_info\<close> be the first item of the supplied list with that name.
  The lookup of the pass finds \<open>plugin_info\<close>. The iteration on the record adds exactly
  one structured entry, with the raw name, the file base name and the version of
  \<open>plugin_info\<close> and the three counts of the record, and writes one legacy element with
  the same three counts and the token \<open>CreateHashes\<close> computes from the name (a function
  of the name alone). In a pass over a present list that holds the record, the entry is
  emitted at the record's position, after the entries of the records before it, unless
  assertions are compiled in and an entry before it reaches \<open>NOTREACHED\<close>: then the pass
  has stopped before the record, which yields no entry.
\<close>

theorem matched_record_emitted:
  fixes env :: environment and plugin_list :: "WebPluginInfo list" and w :: world
    and plugin_dict :: "(string \<times> Value) list"
  defines "plugin_name \<equiv> Dict_GetString plugin_dict kStabilityPluginName []"
    and "launches \<equiv> Dict_GetInteger plugin_dict kStabilityPluginLaunches 0"
    and "instances \<equiv> Dict_GetInteger plugin_dict kStabilityPluginInstances 0"
    and "crashes \<equiv> Dict_GetInteger plugin_dict kStabilityPluginCrashes 0"
  assumes inventory: "plugin_list = earlier @ plugin_info # later"
    and matched: "wpi_name plugin_info = plugin_name"
    and first: "\<forall>item \<in> set earlier. wpi_name item \<noteq> plugin_name"
  defines "entry \<equiv>
      \<lparr>ps_plugin =
         \<lparr>pl_name = Some plugin_name,
          pl_filename = Some (BaseName env (wpi_path plugin_info)),
          pl_version = Some (wpi_version plugin_info),
          pl_is_disabled =
            map_option (\<lambda>IsPluginEnabled. \<not> IsPluginEnabled plugin_info)
              (GetPluginPrefs env)\<rparr>,
       ps_launch_count = Some launches, ps_instance_count = Some instances,
       ps_crash_count = Some crashes\<rparr>"
  shows
    "find_plugin_info plugin_list plugin_name = Some plugin_info \<and>
     plugin_stats_iteration env plugin_list (DictionaryValue plugin_dict) w =
       Done (mutable_stability (\<lambda>s. s\<lparr>st_plugin_stability := st_plugin_stability s @ [entry]\<rparr>)
             (mlog_update (xml_update (\<lambda>xs. xs @
               [StartElement ''pluginstability'',
                Attribute ''filename'' (StringAttr (CreateHashes env plugin_name)),
                Attribute ''launchcount'' (IntAttr launches),
                Attribute ''instancecount'' (IntAttr instances),
                Attribute ''crashcount'' (IntAttr crashes), EndElement])) w)) \<and>
     structured_entries env plugin_list (DictionaryValue plugin_dict) = [entry] \<and>
     (\<forall>before after.
        GetList (local_state w) kStabilityPluginStats =
          Some (before @ DictionaryValue plugin_dict # after) \<longrightarrow>
        st_plugin_stability (stability (state_of
            (WritePluginStabilityElements env plugin_list w))) =
          st_plugin_stability (stability w) @
          (if dcheck_is_on env \<and> (\<exists>v \<in> set before. hits_NOTREACHED plugin_list v)
           then concat (map (structured_entries env plugin_list)
                  (takeWhile (\<lambda>v. \<not> hits_NOTREACHED plugin_list v) before))
           else concat (map (structured_entries env plugin_list) before) @ [entry] @
                concat (map (structured_entries env plugin_list)
                  (if dcheck_is_on env
                   then takeWhile (\<lambda>v. \<not> hits_NOTREACHED plugin_list v) after
                   else after))))"
proof (intro conjI allI impI)
  show found: "find_plugin_info plugin_list plugin_name = Some plugin_info"
    unfolding inventory using matched first by (rule find_plugin_info_first)
  then have found': "find_plugin_info plugin_list
      (Dict_GetString plugin_dict kStabilityPluginName []) = Some plugin_info"
    by (simp add: plugin_name_def)
  have name: "wpi_name plugin_info = Dict_GetString plugin_dict kStabilityPluginName []"
    using matched by (simp add: plugin_name_def)
  show entries: "structured_entries env plugin_list (DictionaryValue plugin_dict) = [entry]"
    by (simp add: structured_entries_def found' name entry_def plugin_name_def launches_def
        instances_def crashes_def)
  have no_hit: "\<not> hits_NOTREACHED plugin_list (DictionaryValue plugin_dict)"
    by (simp add: hits_NOTREACHED_def found')
  then have "dcheck_is_on env \<longrightarrow> \<not> hits_NOTREACHED plugin_list (DictionaryValue plugin_dict)"
    by simp
  from plugin_stats_iteration_Done [OF this]
  show "plugin_stats_iteration env plugin_list (DictionaryValue plugin_dict) w =
       Done (mutable_stability (\<lambda>s. s\<lparr>st_plugin_stability := st_plugin_stability s @ [entry]\<rparr>)
             (mlog_update (xml_update (\<lambda>xs. xs @
               [StartElement ''pluginstability'',
                Attribute ''filename'' (StringAttr (CreateHashes env plugin_name)),
                Attribute ''launchcount'' (IntAttr launches),
                Attribute ''instancecount'' (IntAttr instances),
                Attribute ''crashcount'' (IntAttr crashes), EndElement])) w))"
    by (simp add: effects_report_only entries legacy_element_def
        pluginstability_attributes_def plugin_name_def launches_def instances_def crashes_def)
  show "st_plugin_stability (stability (state_of
            (WritePluginStabilityElements env plugin_list w))) =
          st_plugin_stability (stability w) @
          (if dcheck_is_on env \<and> (\<exists>v \<in> set before. hits_NOTREACHED plugin_list v)
           then concat (map (structured_entries env plugin_list)
                  (takeWhile (\<lambda>v. \<not> hits_NOTREACHED plugin_list v) before))
           else concat (map (structured_entries env plugin_list) before) @ [entry] @
                concat (map (structured_entries env plugin_list)
                  (if dcheck_is_on env
                   then takeWhile (\<lambda>v. \<not> hits_NOTREACHED plugin_list v) after
                   else after)))"
    if present: "GetList (local_state w) kStabilityPluginStats =
          Some (before @ DictionaryValue plugin_dict # after)"
    for before after
  proof -
    let ?vs = "before @ DictionaryValue plugin_dict # after"
    let ?P = "\<lambda>v. \<not> hits_NOTREACHED plugin_list v"
    have processed: "st_plugin_stability (stability (state_of
            (WritePluginStabilityElements env plugin_list w))) =
          st_plugin_stability (stability w) @
          concat (map (structured_entries env plugin_list)
            (if dcheck_is_on env then takeWhile ?P ?vs else ?vs))"
    proof (cases "dcheck_is_on env \<and> (\<exists>v \<in> set ?vs. hits_NOTREACHED plugin_list v)")
      case True
      then have on: "dcheck_is_on env" and ex: "\<exists>v \<in> set ?vs. hits_NOTREACHED plugin_list v"
        by blast+
      show ?thesis
        unfolding WritePluginStabilityElements_fault [OF present on ex] by (simp add: on)
    next
      case False
      then have all: "dcheck_is_on env \<longrightarrow> (\<forall>v \<in> set ?vs. \<not> hits_NOTREACHED plugin_list v)"
        by blast
      show ?thesis
      proof (cases "dcheck_is_on env")
        case True
        with all have "\<forall>v \<in> set ?vs. ?P v"
          by blast
        then have whole: "takeWhile ?P ?vs = ?vs"
          by (simp only: takeWhile_eq_all_conv)
        show ?thesis
          unfolding WritePluginStabilityElements_Done [OF present all]
          by (simp only: True if_True whole) simp
      next
        case False
        show ?thesis
          unfolding WritePluginStabilityElements_Done [OF present all]
          by (simp only: False if_False) simp
      qed
    qed
    show ?thesis
    proof (cases "\<exists>v \<in> set before. hits_NOTREACHED plugin_list v")
      case True
      then obtain v where "v \<in> set before" and "\<not> ?P v"
        by blast
      then have "takeWhile ?P ?vs = takeWhile ?P before"
        by (rule takeWhile_append1)
      with True show ?thesis
        by (simp add: processed entries no_hit)
    next
      case False
      then have "takeWhile ?P ?vs = before @ DictionaryValue plugin_dict # takeWhile ?P after"
        by (simp add: takeWhile_append2 no_hit)
      with False show ?thesis
        by (simp add: processed entries)
    qed
  qed
qed

theorem matched_record_emitted_witness:
  "[Foo] = [] @ Foo # [] \<and>
   wpi_name Foo =
     Dict_GetString
       [(kStabilityPluginName, StringValue ''Foo''),
        (kStabilityPluginLaunches, IntegerValue 4),
        (kStabilityPluginInstances, IntegerValue 6),
        (kStabilityPluginCrashes, IntegerValue 2)] kStabilityPluginName [] \<and>
   find_plugin_info [Foo] ''Foo'' = Some Foo \<and>
   map ps_crash_count (st_plugin_stability (stability (state_of
     (plugin_stats_iteration example_environment [Foo] (PluginUsageRecord ''Foo'' 4 6 2)
        example_world)))) = [Some 2] \<and>
   map ps_crash_count (st_plugin_stability (stability (state_of
     (WritePluginStabilityElements release_environment [Foo]
       (plugin_world [PluginUsageRecord ''Bar'' 1 1 1, PluginUsageRecord ''Foo'' 4 6 2]))))) =
     [Some 2] \<and>
   st_plugin_stability (stability (state_of
     (WritePluginStabilityElements example_environment [Foo]
       (plugin_world [PluginUsageRecord ''Bar'' 1 1 1, PluginUsageRecord ''Foo'' 4 6 2])))) =
     []"
proof -
  let ?d = "[(kStabilityPluginName, StringValue ''Foo''),
        (kStabilityPluginLaunches, IntegerValue 4),
        (kStabilityPluginInstances, IntegerValue 6),
        (kStabilityPluginCrashes, IntegerValue 2)]"
  have inventory: "[Foo] = [] @ Foo # []"
    by simp
  have name: "Dict_GetString ?d kStabilityPluginName [] = ''Foo''"
    by (simp add: Dict_GetString_def kStabilityPluginName_def)
  have matched: "wpi_name Foo = Dict_GetString ?d kStabilityPluginName []"
    by (simp add: name Foo_def)
  have first: "\<forall>item \<in> set []. wpi_name item \<noteq> Dict_GetString ?d kStabilityPluginName []"
    by simp
  have usage: "PluginUsageRecord ''Foo'' 4 6 2 = DictionaryValue ?d"
    by (simp add: PluginUsageRecord_def)
  have crashes: "Dict_GetInteger ?d kStabilityPluginCrashes 0 = 2"
    by (simp add: Dict_GetInteger_def kStabilityPluginName_def kStabilityPluginCrashes_def
        kStabilityPluginLaunches_def kStabilityPluginInstances_def)
  have present: "GetList (local_state
      (plugin_world [PluginUsageRecord ''Bar'' 1 1 1, PluginUsageRecord ''Foo'' 4 6 2]))
      kStabilityPluginStats = Some ([PluginUsageRecord ''Bar'' 1 1 1] @ DictionaryValue ?d # [])"
    by (simp add: usage)
  note iteration = matched_record_emitted [OF inventory matched first,
      of example_environment example_world]
  note release = matched_record_emitted [OF inventory matched first,
      of release_environment
        "plugin_world [PluginUsageRecord ''Bar'' 1 1 1, PluginUsageRecord ''Foo'' 4 6 2]"]
  note debug = matched_record_emitted [OF inventory matched first,
      of example_environment
        "plugin_world [PluginUsageRecord ''Bar'' 1 1 1, PluginUsageRecord ''Foo'' 4 6 2]"]
  have found: "find_plugin_info [Foo] ''Foo'' = Some Foo"
    using iteration [THEN conjunct1] by (simp only: name)
  have "map ps_crash_count (st_plugin_stability (stability (state_of
        (plugin_stats_iteration example_environment [Foo] (DictionaryValue ?d)
          example_world)))) = [Some 2]"
    unfolding iteration [THEN conjunct2, THEN conjunct1]
    by (simp add: crashes stability_def mutable_stability_def mutable_system_profile_def
        example_world_def new_MetricsLog_def new_SystemProfileProto_def)
  then have one: "map ps_crash_count (st_plugin_stability (stability (state_of
        (plugin_stats_iteration example_environment [Foo] (PluginUsageRecord ''Foo'' 4 6 2)
          example_world)))) = [Some 2]"
    by (simp only: usage)
  from release [THEN conjunct2, THEN conjunct2, THEN conjunct2, rule_format, OF present]
  have two: "map ps_crash_count (st_plugin_stability (stability (state_of
      (WritePluginStabilityElements release_environment [Foo]
        (plugin_world [PluginUsageRecord ''Bar'' 1 1 1, PluginUsageRecord ''Foo'' 4 6 2]))))) =
      [Some 2]"
    by (simp add: crashes)
  from debug [THEN conjunct2, THEN conjunct2, THEN conjunct2, rule_format, OF present]
  have three: "st_plugin_stability (stability (state_of
      (WritePluginStabilityElements example_environment [Foo]
        (plugin_world [PluginUsageRecord ''Bar'' 1 1 1, PluginUsageRecord ''Foo'' 4 6 2])))) =
      []"
    by simp
  from found one two three show ?thesis
    using matched by simp
qed

text \<open>
  C8, the cleared plugin list. When the pass on a present list completes, the persisted
  list is empty afterwards, whatever its records were, so that the pass of a later report
  writes an empty \<open>plugins\<close> element and nothing else. The pass completes whenever
  assertions are compiled out (also when records are dropped for lacking an inventory
  item) and whenever no entry reaches \<open>NOTREACHED\<close>.
\<close>

theorem plugin_stats_cleared_after_pass:
  fixes env :: environment and plugin_list :: "WebPluginInfo list" and w :: world
  assumes present: "GetList (local_state w) kStabilityPluginStats = Some plugin_stats_list"
  defines "r \<equiv> WritePluginStabilityElements env plugin_list w"
  shows "(\<not> is_fault r \<longrightarrow>
            GetList (local_state (state_of r)) kStabilityPluginStats = Some [] \<and>
            (\<forall>env2 plugin_list2.
               WritePluginStabilityElements env2 plugin_list2 (next_report (state_of r)) =
                 Done (CloseElement (OpenElement ''plugins'' (next_report (state_of r)))))) \<and>
         (\<not> dcheck_is_on env \<longrightarrow> \<not> is_fault r) \<and>
         ((\<forall>v \<in> set plugin_stats_list. \<not> hits_NOTREACHED plugin_list v) \<longrightarrow> \<not> is_fault r)"
proof (intro conjI impI allI)
  assume "\<not> is_fault r"
  then obtain w' where r: "WritePluginStabilityElements env plugin_list w = Done w'"
    unfolding r_def by (cases "WritePluginStabilityElements env plugin_list w") simp_all
  note w' = WritePluginStabilityElements_cases [OF present r]
  show cleared: "GetList (local_state (state_of r)) kStabilityPluginStats = Some []"
    unfolding r_def r by (simp add: w')
  show "WritePluginStabilityElements env2 plugin_list2 (next_report (state_of r)) =
          Done (CloseElement (OpenElement ''plugins'' (next_report (state_of r))))"
    for env2 plugin_list2
  proof -
    have empty: "GetList (local_state (next_report (state_of r))) kStabilityPluginStats = Some []"
      using cleared by simp
    note idem = effects_pref_idem
      [where P = "ClearPref kStabilityPluginStats" and w = "next_report (state_of r)",
       OF ClearPref_idem [OF empty]]
    have "dcheck_is_on env2 \<longrightarrow> (\<forall>v \<in> set []. \<not> hits_NOTREACHED plugin_list2 v)"
      by simp
    from WritePluginStabilityElements_Done [OF empty this] show ?thesis
      by (simp add: idem to_effects)
  qed
next
  assume "\<not> dcheck_is_on env"
  then have "dcheck_is_on env \<longrightarrow> (\<forall>v \<in> set plugin_stats_list. \<not> hits_NOTREACHED plugin_list v)"
    by simp
  from WritePluginStabilityElements_Done [OF present this] show "\<not> is_fault r"
    by (simp add: r_def)
next
  assume "\<forall>v \<in> set plugin_stats_list. \<not> hits_NOTREACHED plugin_list v"
  then have "dcheck_is_on env \<longrightarrow> (\<forall>v \<in> set plugin_stats_list. \<not> hits_NOTREACHED plugin_list v)"
    by simp
  from WritePluginStabilityElements_Done [OF present this] show "\<not> is_fault r"
    by (simp add: r_def)
qed

theorem plugin_stats_cleared_after_pass_witness:
  "GetList (local_state (plugin_world [PluginUsageRecord ''Bar'' 1 1 1]))
     kStabilityPluginStats = Some [PluginUsageRecord ''Bar'' 1 1 1] \<and>
   \<not> dcheck_is_on release_environment \<and>
   \<not> is_fault (WritePluginStabilityElements release_environment [Foo]
        (plugin_world [PluginUsageRecord ''Bar'' 1 1 1])) \<and>
   GetList (local_state (state_of (WritePluginStabilityElements release_environment [Foo]
        (plugin_world [PluginUsageRecord ''Bar'' 1 1 1])))) kStabilityPluginStats = Some [] \<and>
   st_plugin_stability (stability (state_of
     (WritePluginStabilityElements example_environment [Foo]
        (next_report (state_of (WritePluginStabilityElements release_environment [Foo]
           (plugin_world [PluginUsageRecord ''Bar'' 1 1 1]))))))) = []"
  using plugin_stats_cleared_after_pass
    [OF plugin_world_simps(1) [of "[PluginUsageRecord ''Bar'' 1 1 1]"],
      where env = release_environment and plugin_list = "[Foo]"]
  by (simp add: OpenElement_def CloseElement_def)

section \<open>The lock\<close>

text \<open>
  C6, lock immutability. The claim fails as stated: the guard of the three record
  operations is the assertion \<open>DCHECK(!locked())\<close>, and where assertions are compiled
  out \<open>RecordOmniboxOpenedURL\<close> on a locked report raises nothing, appends an event to
  the structured record and increments the event counter.
\<close>

theorem lock_immutability_counterexample:
  "locked (mlog locked_world) \<and> num_events (mlog locked_world) = 0 \<and>
   omnibox_event (uma_proto (mlog locked_world)) = [] \<and>
   \<not> is_fault (RecordOmniboxOpenedURL release_environment example_autocomplete_log locked_world) \<and>
   num_events (mlog (state_of
     (RecordOmniboxOpenedURL release_environment example_autocomplete_log locked_world))) = 1 \<and>
   map oe_typed_length (omnibox_event (uma_proto (mlog (state_of
     (RecordOmniboxOpenedURL release_environment example_autocomplete_log locked_world))))) =
     [Some 8]"
  using omnibox_release_example
  by (simp add: locked_world_def new_MetricsLog_def)

text \<open>
  C6 as amended. Where assertions are compiled in, each of the three record operations
  on a locked report stops at its first statement with a \<open>ProgrammingFault\<close>, and the
  state at the fault is the state before the call: nothing of the report (either
  encoding, the events, the event counter) has changed.
\<close>

theorem lock_immutability:
  assumes "dcheck_is_on env" and "locked (mlog w)"
  shows "RecordEnvironment env plugin_list profile_metrics w = ProgrammingFault w \<and>
         RecordIncrementalStabilityElements env plugin_list w = ProgrammingFault w \<and>
         RecordOmniboxOpenedURL env autocomplete_log w = ProgrammingFault w"
  unfolding RecordEnvironment_def RecordIncrementalStabilityElements_def
    RecordOmniboxOpenedURL_def Let_def
  using assms by (intro conjI block_DCHECK(1)) simp_all

theorem lock_immutability_witness:
  "dcheck_is_on example_environment \<and> locked (mlog locked_world) \<and>
   RecordEnvironment example_environment [Foo] None locked_world =
     ProgrammingFault locked_world \<and>
   RecordIncrementalStabilityElements example_environment [Foo] locked_world =
     ProgrammingFault locked_world \<and>
   RecordOmniboxOpenedURL example_environment example_autocomplete_log locked_world =
     ProgrammingFault locked_world"
proof -
  have l: "locked (mlog locked_world)"
    by (simp add: locked_world_def)
  from lock_immutability [OF example_environment_simps(1) l] show ?thesis
    using l by simp
qed

section \<open>Per-profile metrics\<close>

text \<open>
  C7, the per-profile metric of an unrecognized type. The claim fails as stated: the
  default branch of the switch is \<open>NOTREACHED(); break;\<close>, and where assertions are
  compiled out the build of the report is not aborted: the metric \<open>ratio\<close>, a double,
  is left out of the \<open>userprofile\<close> element without a trace.
\<close>

theorem unrecognized_profile_metric_counterexample:
  "\<not> is_fault (RecordEnvironment release_environment [Foo] (Some example_profiles_metrics)
       example_world) \<and>
   WriteProfileMetrics release_environment ''7f3a''
     [(''tabs'', IntegerValue 4), (''ratio'', DoubleValue (1 / 2))] example_world =
   Done (example_world\<lparr>mlog := new_MetricsLog\<lparr>xml :=
     [StartElement ''userprofile'', Attribute ''profileidhash'' (StringAttr ''7f3a''),
      StartElement ''profileparam'', Attribute ''name'' (StringAttr ''tabs''),
      Attribute ''value'' (IntAttr 4), EndElement, EndElement]\<rparr>\<rparr>)"
  by (simp add: RecordEnvironment_release WriteProfileMetrics_release profileparam_element_def
      example_world_def new_MetricsLog_def)

text \<open>
  C7 as amended. A per-profile metric whose value is not a string, a boolean or an
  integer reaches the assertion \<open>NOTREACHED\<close>. Where assertions are compiled in, the
  iteration stops with a \<open>ProgrammingFault\<close>, and so do \<open>WriteProfileMetrics\<close> and
  the whole of \<open>RecordEnvironment\<close>. Where they are compiled out, the iteration
  changes nothing and the build goes on.
\<close>

theorem unrecognized_profile_metric_type:
  assumes "(key, v) \<in> set profile_metrics" and "\<not> recognized_type v"
    and "(key_name, DictionaryValue profile_metrics) \<in> set all_profiles_metrics"
    and "take (length (kProfilePrefix env)) key_name = kProfilePrefix env"
  shows "(dcheck_is_on env \<longrightarrow>
            profile_metrics_iteration env key v w = ProgrammingFault w \<and>
            is_fault (WriteProfileMetrics env profileidhash profile_metrics w) \<and>
            is_fault (RecordEnvironment env plugin_list (Some all_profiles_metrics) w)) \<and>
         (\<not> dcheck_is_on env \<longrightarrow>
            profile_metrics_iteration env key v w = Done w \<and>
            \<not> is_fault (WriteProfileMetrics env profileidhash profile_metrics w) \<and>
            \<not> is_fault (RecordEnvironment env plugin_list (Some all_profiles_metrics) w))"
proof (intro conjI impI)
  assume on: "dcheck_is_on env"
  show "profile_metrics_iteration env key v w = ProgrammingFault w"
    by (rule profile_metrics_iteration_fault [OF on assms(2)])
  show "is_fault (WriteProfileMetrics env profileidhash profile_metrics w)"
    by (rule WriteProfileMetrics_fault [OF on assms(1,2)])
  show "is_fault (RecordEnvironment env plugin_list (Some all_profiles_metrics) w)"
    by (rule RecordEnvironment_fault [OF on assms(3,4,1,2)])
next
  assume off: "\<not> dcheck_is_on env"
  have "profileparam_element key v = []"
    using assms(2) by (cases v) (simp_all add: profileparam_element_def)
  then show "profile_metrics_iteration env key v w = Done w"
    by (simp add: profile_metrics_iteration_release [OF off] effects_id)
  show "\<not> is_fault (WriteProfileMetrics env profileidhash profile_metrics w)"
    by (simp add: WriteProfileMetrics_release [OF off])
  show "\<not> is_fault (RecordEnvironment env plugin_list (Some all_profiles_metrics) w)"
    by (simp add: RecordEnvironment_release [OF off])
qed

theorem unrecognized_profile_metric_type_witness:
  "(''ratio'', DoubleValue (1 / 2)) \<in>
     set [(''tabs'', IntegerValue 4), (''ratio'', DoubleValue (1 / 2))] \<and>
   \<not> recognized_type (DoubleValue (1 / 2)) \<and>
   (''profile-7f3a'',
     DictionaryValue [(''tabs'', IntegerValue 4), (''ratio'', DoubleValue (1 / 2))])
     \<in> set example_profiles_metrics \<and>
   take (length (kProfilePrefix example_environment)) ''profile-7f3a'' =
     kProfilePrefix example_environment \<and>
   dcheck_is_on example_environment \<and>
   is_fault (RecordEnvironment example_environment [Foo] (Some example_profiles_metrics)
     example_world)"
proof -
  have 1: "(''ratio'', DoubleValue (1 / 2)) \<in>
     set [(''tabs'', IntegerValue 4), (''ratio'', DoubleValue (1 / 2))]"
    by simp
  have 2: "\<not> recognized_type (DoubleValue (1 / 2))"
    by simp
  have 3: "(''profile-7f3a'',
     DictionaryValue [(''tabs'', IntegerValue 4), (''ratio'', DoubleValue (1 / 2))])
     \<in> set example_profiles_metrics"
    by (simp add: example_profiles_metrics_def)
  have 4: "take (length (kProfilePrefix example_environment)) ''profile-7f3a'' =
     kProfilePrefix example_environment"
    by (simp add: example_environment_def)
  from unrecognized_profile_metric_type [OF 1 2 3 4, of example_world "[]" "[Foo]"]
  show ?thesis
    using 1 2 3 4 by simp
qed

section \<open>The two encodings\<close>




end
